theory Spec2Isabelle
  imports Complex_Main "HOL-Library.AList"
begin

section \<open>Data model of \<^verbatim>\<open>xtuml/meta.py\<close>\<close>

text \<open>
  Python objects are compared by identity in this module (\<^verbatim>\<open>Class\<close>, \<^verbatim>\<open>MetaClass\<close> and
  \<^verbatim>\<open>Association\<close> define no \<^verbatim>\<open>__eq__\<close>), so an instance, a metaclass and a link are
  named by an address into a store of the metamodel. A \<^verbatim>\<open>Link\<close> object is shared by the
  \<^verbatim>\<open>links\<close> table of its metaclass and by its \<^verbatim>\<open>Association\<close>; both hold the address.
\<close>

type_synonym inst = nat
type_synonym mcid = nat
type_synonym lid = nat

datatype error =
    RelateException
  | UnrelateException
  | UnknownLinkException
  | DeleteException
  | UnknownClassException
  | MetaModelException
  | MetaException
  | AttributeError
  | TypeError
  | RecursionError

text \<open>A relation id is passed as a Python int or as a string.\<close>

datatype relid = RInt int | RStr string

text \<open>
  \<^verbatim>\<open>class Link(dict)\<close>: the dictionary part maps an instance to its neighbour set (a Python
  \<^verbatim>\<open>set\<close>, which keeps no insertion order); the other fields are the attributes set by
  \<^verbatim>\<open>Link.__init__\<close>.
\<close>

record link =
  from_metaclass :: mcid
  rel_id :: string
  to_metaclass :: mcid
  phrase :: string
  key_map :: "(string \<times> string) list"
  conditional :: bool
  many :: bool
  neighbors :: "inst \<rightharpoonup> inst set"

record association =
  a_rel_id :: string
  source_keys :: "string list"
  source_link :: lid
  target_keys :: "string list"
  target_link :: lid

text \<open>
  Attribute values. \<^verbatim>\<open>UNIQUE_ID\<close> values are Python ints. The module does no arithmetic
  on \<^verbatim>\<open>REAL\<close> values, it only stores and compares them, so a float is the real number it
  denotes.
\<close>

datatype val = VNone | VBool bool | VInt int | VReal real | VStr string

text \<open>
  \<^verbatim>\<open>Query\<close>: \<^verbatim>\<open>storage\<close>, \<^verbatim>\<open>items\<close>, the deque \<^verbatim>\<open>result\<close> and the generator
  \<^verbatim>\<open>evaluation\<close>. The generator object is either suspended in front of the pool element
  with a given index (\<open>Gen i\<close>), or dead after an exception left it (\<open>Dead\<close>); the
  attribute is \<^verbatim>\<open>None\<close> once the generator has run to its end. The pool of a cached
  query is the \<^verbatim>\<open>storage\<close> list of its metaclass, which is only mutated by \<^verbatim>\<open>new\<close>
  and \<^verbatim>\<open>delete\<close>, and both empty the cache; so the query holds the list by value here.
\<close>

datatype evaluation = Gen nat | Dead

record query =
  q_id :: nat
  q_storage :: "inst list"
  q_items :: "(string \<times> val) list"
  q_result :: "inst list"
  q_evaluation :: "evaluation option"

text \<open>
  \<^verbatim>\<open>MetaClass\<close>. A Python \<^verbatim>\<open>dict\<close> whose iteration order is used is an association list
  (insertion order, an overwritten key keeps its place). \<open>props\<close> holds the properties
  that \<^verbatim>\<open>Association.formalize\<close> installs on \<^verbatim>\<open>clazz\<close>: the name of the referential
  attribute, the link that \<^verbatim>\<open>fget\<close> navigates and the attribute it reads there.
\<close>

record metaclass =
  kind :: string
  attributes :: "(string \<times> string) list"
  referential_attributes :: "string set"
  identifying_attributes :: "string set"
  indices :: "(string \<times> string list) list"
  links :: "((string \<times> relid \<times> string) \<times> lid) list"
  props :: "(string \<times> (lid \<times> string)) list"
  storage :: "inst list"
  cache :: "(string \<times> val) set \<rightharpoonup> query"

text \<open>
  \<^verbatim>\<open>MetaModel\<close>, together with the stores of the objects it reaches: metaclasses, links,
  and for every instance its \<^verbatim>\<open>__metaclass__\<close> and its \<^verbatim>\<open>__dict__\<close>. The counters give
  the next free address of each store (\<open>n_queries\<close> numbers the \<^verbatim>\<open>Query\<close> objects, so
  that two queries with the same contents are still two objects). \<open>id_generator\<close> is the
  next value of the id generator, a counter standing for the generator object passed to
  \<^verbatim>\<open>MetaModel.__init__\<close>. \<open>set_iter\<close> is the order in which the interpreter iterates a
  \<^verbatim>\<open>set\<close> of instances: it depends on the hash values of the objects, not on the order
  of insertion, and is a parameter of the model.
\<close>

record metamodel =
  metaclasses :: "(string \<times> mcid) list"
  associations :: "association list"
  id_generator :: int
  mc_heap :: "mcid \<Rightarrow> metaclass"
  link_heap :: "lid \<Rightarrow> link"
  inst_class :: "inst \<Rightarrow> mcid"
  inst_dict :: "inst \<Rightarrow> (string \<rightharpoonup> val)"
  n_metaclasses :: nat
  n_links :: nat
  n_insts :: nat
  n_queries :: nat
  set_iter :: "inst set \<Rightarrow> inst list"

subsection \<open>\<^verbatim>\<open>Link.connect\<close>, \<^verbatim>\<open>Link.disconnect\<close>, \<^verbatim>\<open>Link.navigate\<close>\<close>

definition connect :: "link \<Rightarrow> inst \<Rightarrow> inst \<Rightarrow> bool \<Rightarrow> link \<times> bool" where
  "connect self inst another_instance check =
     (let self1 = (if inst \<notin> dom (neighbors self)
                   then self\<lparr>neighbors := (neighbors self)(inst \<mapsto> {})\<rparr> else self);
          s = the (neighbors self1 inst)
      in if another_instance \<in> s then (self1, True)
         else if s \<noteq> {} \<and> \<not> many self \<and> check then (self1, False)
         else (self1\<lparr>neighbors := (neighbors self1)(inst \<mapsto> insert another_instance s)\<rparr>, True))"

definition disconnect :: "link \<Rightarrow> inst \<Rightarrow> inst \<Rightarrow> link \<times> bool" where
  "disconnect self inst another_instance =
     (case neighbors self inst of
        None \<Rightarrow> (self, False)
      | Some s \<Rightarrow>
          if another_instance \<notin> s then (self, False)
          else (self\<lparr>neighbors := (neighbors self)(inst \<mapsto> s - {another_instance})\<rparr>, True))"

definition navigate :: "link \<Rightarrow> inst \<Rightarrow> inst set" where
  "navigate self inst = (case neighbors self inst of Some s \<Rightarrow> s | None \<Rightarrow> {})"

subsection \<open>Strings: \<^verbatim>\<open>str.upper\<close> and \<^verbatim>\<open>'R%d' % rel_id\<close>\<close>

definition upper_char :: "char \<Rightarrow> char" where
  "upper_char c =
     (let n = (of_char c :: nat) in if 97 \<le> n \<and> n \<le> 122 then char_of (n - 32) else c)"

definition upper :: "string \<Rightarrow> string" where
  "upper s = map upper_char s"

fun str_nat :: "nat \<Rightarrow> string" where
  "str_nat n =
     (if n < 10 then [char_of (48 + n)] else str_nat (n div 10) @ [char_of (48 + n mod 10)])"

declare str_nat.simps [simp del]

definition str_int :: "int \<Rightarrow> string" where
  "str_int i = (if i < 0 then CHR ''-'' # str_nat (nat (- i)) else str_nat (nat i))"

text \<open>\<^verbatim>\<open>if isinstance(rel_id, int): rel_id = 'R%d' % rel_id\<close>\<close>

definition norm_rel_id :: "relid \<Rightarrow> string" where
  "norm_rel_id r = (case r of RInt n \<Rightarrow> ''R'' @ str_int n | RStr s \<Rightarrow> s)"

subsection \<open>\<^verbatim>\<open>MetaClass.add_link\<close>, \<^verbatim>\<open>find_link\<close>, \<^verbatim>\<open>navigate\<close>, \<^verbatim>\<open>delete\<close>\<close>

definition Link_init :: "mcid \<Rightarrow> relid \<Rightarrow> mcid \<Rightarrow> string \<Rightarrow> bool \<Rightarrow> bool \<Rightarrow> link" where
  "Link_init from_mc r to_mc phr cond mny =
     \<lparr>from_metaclass = from_mc, rel_id = norm_rel_id r, to_metaclass = to_mc, phrase = phr,
      key_map = [], conditional = cond, many = mny, neighbors = Map.empty\<rparr>"

definition add_link ::
  "metamodel \<Rightarrow> mcid \<Rightarrow> mcid \<Rightarrow> relid \<Rightarrow> string \<Rightarrow> bool \<Rightarrow> bool \<Rightarrow> metamodel \<times> lid" where
  "add_link m self mc r phr cond mny =
     (let l = n_links m;
          key = (upper (kind (mc_heap m mc)), r, phr);
          me = mc_heap m self
      in (m\<lparr>link_heap := (link_heap m)(l := Link_init self r mc phr cond mny),
            n_links := Suc l,
            mc_heap := (mc_heap m)(self := me\<lparr>links := AList.update key l (links me)\<rparr>)\<rparr>, l))"

definition find_link :: "metamodel \<Rightarrow> mcid \<Rightarrow> string \<Rightarrow> relid \<Rightarrow> string \<Rightarrow> lid option" where
  "find_link m self knd r phr =
     map_of (links (mc_heap m self)) (upper knd, RStr (norm_rel_id r), phr)"

definition mc_navigate ::
  "metamodel \<Rightarrow> mcid \<Rightarrow> inst \<Rightarrow> string \<Rightarrow> relid \<Rightarrow> string \<Rightarrow> error + inst set" where
  "mc_navigate m self i knd r phr =
     (case map_of (links (mc_heap m self)) (upper knd, r, phr) of
        Some l \<Rightarrow> Inr (navigate (link_heap m l) i)
      | None \<Rightarrow> Inl UnknownLinkException)"

definition mc_delete :: "metamodel \<Rightarrow> mcid \<Rightarrow> inst \<Rightarrow> metamodel \<times> (error + unit)" where
  "mc_delete m self i =
     (let me = mc_heap m self
      in if i \<in> set (storage me)
         then (m\<lparr>mc_heap := (mc_heap m)
                   (self := me\<lparr>storage := remove1 i (storage me), cache := Map.empty\<rparr>)\<rparr>, Inr ())
         else (m, Inl DeleteException))"

text \<open>The module-level \<^verbatim>\<open>delete(instance)\<close>, for an argument that is an instance.\<close>

definition delete :: "metamodel \<Rightarrow> inst \<Rightarrow> metamodel \<times> (error + unit)" where
  "delete m i = mc_delete m (inst_class m i) i"

subsection \<open>\<^verbatim>\<open>MetaModel\<close>: classes and associations\<close>

definition MetaModel_init :: "int \<Rightarrow> (inst set \<Rightarrow> inst list) \<Rightarrow> metamodel" where
  "MetaModel_init gen it =
     \<lparr>metaclasses = [], associations = [], id_generator = gen,
      mc_heap = (\<lambda>_. \<lparr>kind = [], attributes = [], referential_attributes = {},
                       identifying_attributes = {}, indices = [], links = [], props = [],
                       storage = [], cache = Map.empty\<rparr>),
      link_heap = (\<lambda>_. Link_init 0 (RStr []) 0 [] False False),
      inst_class = (\<lambda>_. 0), inst_dict = (\<lambda>_. Map.empty),
      n_metaclasses = 0, n_links = 0, n_insts = 0, n_queries = 0, set_iter = it\<rparr>"

definition define_class ::
  "metamodel \<Rightarrow> string \<Rightarrow> (string \<times> string) list \<Rightarrow> metamodel \<times> (error + mcid)" where
  "define_class m knd attrs =
     (let ukind = upper knd
      in if ukind \<in> fst ` set (metaclasses m) then (m, Inl MetaModelException)
         else
           let c = n_metaclasses m;
               mc = \<lparr>kind = knd, attributes = attrs, referential_attributes = {},
                     identifying_attributes = {}, indices = [], links = [], props = [],
                     storage = [], cache = Map.empty\<rparr>
           in (m\<lparr>mc_heap := (mc_heap m)(c := mc), n_metaclasses := Suc c,
                 metaclasses := AList.update ukind c (metaclasses m)\<rparr>, Inr c))"

definition find_metaclass :: "metamodel \<Rightarrow> string \<Rightarrow> error + mcid" where
  "find_metaclass m knd =
     (case map_of (metaclasses m) (upper knd) of
        Some c \<Rightarrow> Inr c
      | None \<Rightarrow> Inl UnknownClassException)"

definition define_association ::
  "metamodel \<Rightarrow> relid \<Rightarrow> string \<Rightarrow> string list \<Rightarrow> bool \<Rightarrow> bool \<Rightarrow> string \<Rightarrow>
   string \<Rightarrow> string list \<Rightarrow> bool \<Rightarrow> bool \<Rightarrow> string \<Rightarrow> metamodel \<times> (error + association)" where
  "define_association m r source_kind skeys source_many source_conditional source_phrase
       target_kind tkeys target_many target_conditional target_phrase =
     (let rid = RStr (norm_rel_id r)
      in case find_metaclass m source_kind of
           Inl e \<Rightarrow> (m, Inl e)
         | Inr source_metaclass \<Rightarrow>
             (case find_metaclass m target_kind of
                Inl e \<Rightarrow> (m, Inl e)
              | Inr target_metaclass \<Rightarrow>
                  let (m1, slk) = add_link m target_metaclass source_metaclass rid source_phrase
                                   source_conditional source_many;
                      (m2, tlk) = add_link m1 source_metaclass target_metaclass rid target_phrase
                                   target_conditional target_many;
                      ass = \<lparr>a_rel_id = norm_rel_id r, source_keys = skeys,
                              source_link = slk, target_keys = tkeys, target_link = tlk\<rparr>
                  in (m2\<lparr>associations := associations m2 @ [ass]\<rparr>, Inr ass)))"

subsection \<open>\<^verbatim>\<open>_find_link\<close>, \<^verbatim>\<open>relate\<close>, \<^verbatim>\<open>unrelate\<close>\<close>

fun find_ass ::
  "metamodel \<Rightarrow> association list \<Rightarrow> mcid \<Rightarrow> mcid \<Rightarrow> inst \<Rightarrow> inst \<Rightarrow> string \<Rightarrow> string \<Rightarrow>
   error + (inst \<times> inst \<times> association)" where
  "find_ass m [] metaclass1 metaclass2 inst1 inst2 rid phr = Inl UnknownLinkException"
| "find_ass m (ass # rest) metaclass1 metaclass2 inst1 inst2 rid phr =
     (if a_rel_id ass \<noteq> rid then find_ass m rest metaclass1 metaclass2 inst1 inst2 rid phr
      else if from_metaclass (link_heap m (source_link ass)) = metaclass1 \<and>
              to_metaclass (link_heap m (source_link ass)) = metaclass2 \<and>
              phrase (link_heap m (target_link ass)) = phr
      then Inr (inst1, inst2, ass)
      else if from_metaclass (link_heap m (target_link ass)) = metaclass1 \<and>
              to_metaclass (link_heap m (target_link ass)) = metaclass2 \<and>
              phrase (link_heap m (source_link ass)) = phr
      then Inr (inst2, inst1, ass)
      else find_ass m rest metaclass1 metaclass2 inst1 inst2 rid phr)"

definition find_link_between ::
  "metamodel \<Rightarrow> inst \<Rightarrow> inst \<Rightarrow> relid \<Rightarrow> string \<Rightarrow> error + (inst \<times> inst \<times> association)" where
  "find_link_between m inst1 inst2 r phr =
     find_ass m (associations m) (inst_class m inst1) (inst_class m inst2) inst1 inst2
       (norm_rel_id r) phr"

text \<open>A method call on a link of the store: the link is updated in place.\<close>

definition link_connect :: "metamodel \<Rightarrow> lid \<Rightarrow> inst \<Rightarrow> inst \<Rightarrow> bool \<Rightarrow> metamodel \<times> bool" where
  "link_connect m l i j check =
     (let (l', ok) = connect (link_heap m l) i j check
      in (m\<lparr>link_heap := (link_heap m)(l := l')\<rparr>, ok))"

definition link_disconnect :: "metamodel \<Rightarrow> lid \<Rightarrow> inst \<Rightarrow> inst \<Rightarrow> metamodel \<times> bool" where
  "link_disconnect m l i j =
     (let (l', ok) = disconnect (link_heap m l) i j
      in (m\<lparr>link_heap := (link_heap m)(l := l')\<rparr>, ok))"

text \<open>
  An exception leaves the metamodel as the statements before it made it, so both
  operations return the metamodel next to the result or the exception.
\<close>

definition relate ::
  "metamodel \<Rightarrow> inst option \<Rightarrow> inst option \<Rightarrow> relid \<Rightarrow> string \<Rightarrow> metamodel \<times> (error + bool)" where
  "relate m from_instance to_instance r phr =
     (case (from_instance, to_instance) of
        (Some f, Some t) \<Rightarrow>
          (case find_link_between m f t r phr of
             Inl e \<Rightarrow> (m, Inl e)
           | Inr (inst1, inst2, ass) \<Rightarrow>
               let (m1, ok1) = link_connect m (source_link ass) inst1 inst2 True
               in if \<not> ok1 then (m1, Inl RelateException)
                  else
                    let (m2, ok2) = link_connect m1 (target_link ass) inst2 inst1 True
                    in if \<not> ok2 then (m2, Inl RelateException) else (m2, Inr True))
      | _ \<Rightarrow> (m, Inr False))"

definition unrelate ::
  "metamodel \<Rightarrow> inst option \<Rightarrow> inst option \<Rightarrow> relid \<Rightarrow> string \<Rightarrow> metamodel \<times> (error + bool)" where
  "unrelate m from_instance to_instance r phr =
     (case (from_instance, to_instance) of
        (Some f, Some t) \<Rightarrow>
          (case find_link_between m f t r phr of
             Inl e \<Rightarrow> (m, Inl e)
           | Inr (inst1, inst2, ass) \<Rightarrow>
               let (m1, ok1) = link_disconnect m (source_link ass) inst1 inst2
               in if \<not> ok1 then (m1, Inl UnrelateException)
                  else
                    let (m2, ok2) = link_disconnect m1 (target_link ass) inst2 inst1
                    in if \<not> ok2 then (m2, Inl UnrelateException) else (m2, Inr True))
      | _ \<Rightarrow> (m, Inr False))"

subsection \<open>Values: \<^verbatim>\<open>==\<close> and truth\<close>

definition num_of :: "val \<Rightarrow> real option" where
  "num_of v = (case v of VBool b \<Rightarrow> Some (if b then 1 else 0) | VInt i \<Rightarrow> Some (of_int i)
               | VReal r \<Rightarrow> Some r | _ \<Rightarrow> None)"

definition py_eq :: "val \<Rightarrow> val \<Rightarrow> bool" where
  "py_eq a b = (case (num_of a, num_of b) of
                  (Some x, Some y) \<Rightarrow> x = y
                | (None, None) \<Rightarrow> a = b
                | _ \<Rightarrow> False)"

definition truthy :: "val \<Rightarrow> bool" where
  "truthy v = (case v of VNone \<Rightarrow> False | VBool b \<Rightarrow> b | VInt i \<Rightarrow> i \<noteq> 0
               | VReal r \<Rightarrow> r \<noteq> 0 | VStr s \<Rightarrow> s \<noteq> [])"

subsection \<open>\<^verbatim>\<open>Class.__getattr__\<close>, \<^verbatim>\<open>Class.__setattr__\<close>, \<^verbatim>\<open>_is_null\<close>\<close>

text \<open>
  The loop of \<^verbatim>\<open>Class.__getattr__\<close>; when it finds nothing,
  \<^verbatim>\<open>object.__getattribute__\<close> repeats the lookup that has failed already.
\<close>

fun getattr_loop :: "(string \<times> string) list \<Rightarrow> (string \<rightharpoonup> val) \<Rightarrow> string \<Rightarrow> error + val" where
  "getattr_loop [] dict uname = Inl AttributeError"
| "getattr_loop ((attr, ty) # rest) dict uname =
     (if upper attr \<noteq> uname then getattr_loop rest dict uname
      else case dict attr of Some v \<Rightarrow> Inr v | None \<Rightarrow> getattr_loop rest dict uname)"

text \<open>
  \<^verbatim>\<open>getattr(inst, name)\<close>: a property of the class under exactly this name comes first
  (\<^verbatim>\<open>fget\<close> of \<^verbatim>\<open>Association.formalize\<close>: the attribute \<^verbatim>\<open>ref_name\<close> of the first
  neighbour across the link, \<^verbatim>\<open>None\<close> when there is none or when that read raises
  \<^verbatim>\<open>AttributeError\<close>), then the entry of \<^verbatim>\<open>__dict__\<close> under exactly this name, then
  \<^verbatim>\<open>__getattr__\<close>. The first argument bounds the nesting of property reads, as the
  interpreter's recursion limit does.
\<close>

fun getattr :: "nat \<Rightarrow> metamodel \<Rightarrow> inst \<Rightarrow> string \<Rightarrow> error + val" where
  "getattr 0 m i name =
     (case map_of (props (mc_heap m (inst_class m i))) name of
        Some (l, ref_name) \<Rightarrow> Inl RecursionError
      | None \<Rightarrow>
          (case inst_dict m i name of
             Some v \<Rightarrow> Inr v
           | None \<Rightarrow> getattr_loop (attributes (mc_heap m (inst_class m i))) (inst_dict m i)
                       (upper name)))"
| "getattr (Suc d) m i name =
     (case map_of (props (mc_heap m (inst_class m i))) name of
        Some (l, ref_name) \<Rightarrow>
          (case set_iter m (navigate (link_heap m l) i) of
             [] \<Rightarrow> Inr VNone
           | j # _ \<Rightarrow>
               (case getattr d m j ref_name of
                  Inl e \<Rightarrow> if e = AttributeError then Inr VNone else Inl e
                | Inr v \<Rightarrow> Inr v))
      | None \<Rightarrow>
          (case inst_dict m i name of
             Some v \<Rightarrow> Inr v
           | None \<Rightarrow> getattr_loop (attributes (mc_heap m (inst_class m i))) (inst_dict m i)
                       (upper name)))"

fun setattr_loop :: "(string \<times> string) list \<Rightarrow> string \<Rightarrow> string option" where
  "setattr_loop [] uname = None"
| "setattr_loop ((attr, ty) # rest) uname =
     (if upper attr = uname then Some attr else setattr_loop rest uname)"

definition setattr :: "metamodel \<Rightarrow> inst \<Rightarrow> string \<Rightarrow> val \<Rightarrow> metamodel" where
  "setattr m i name v =
     (let c = inst_class m i; mc = mc_heap m c
      in case setattr_loop (attributes mc) (upper name) of
           Some attr \<Rightarrow>
             m\<lparr>inst_dict := (inst_dict m)(i := (inst_dict m i)(attr \<mapsto> v)),
               mc_heap := (mc_heap m)(c := mc\<lparr>cache := Map.empty\<rparr>)\<rparr>
         | None \<Rightarrow> m\<lparr>inst_dict := (inst_dict m)(i := (inst_dict m i)(name \<mapsto> v))\<rparr>)"

text \<open>
  The loop of \<^verbatim>\<open>_is_null\<close> over the attributes, for a value that is neither true nor
  \<^verbatim>\<open>None\<close>. \<^verbatim>\<open>len(value)\<close> raises \<^verbatim>\<open>TypeError\<close> on a number. Falling off the loop
  returns \<^verbatim>\<open>None\<close>, which the caller reads as false.
\<close>

fun is_null_loop :: "(string \<times> string) list \<Rightarrow> string \<Rightarrow> val \<Rightarrow> error + bool" where
  "is_null_loop [] uname v = Inr False"
| "is_null_loop ((attr_name, attr_ty) # rest) uname v =
     (if upper attr_name \<noteq> uname then is_null_loop rest uname v
      else if upper attr_ty = ''UNIQUE_ID'' then Inr (py_eq v (VInt 0))
      else if upper attr_ty = ''STRING''
           then (case v of VStr s \<Rightarrow> Inr (length s = 0) | _ \<Rightarrow> Inl TypeError)
      else Inr False)"

definition is_null :: "nat \<Rightarrow> metamodel \<Rightarrow> inst \<Rightarrow> string \<Rightarrow> error + bool" where
  "is_null d m i name =
     (case getattr d m i name of
        Inl e \<Rightarrow> Inl e
      | Inr v \<Rightarrow>
          if truthy v then Inr False
          else if v = VNone then Inr True
          else is_null_loop (attributes (mc_heap m (inst_class m i))) (upper name) v)"

subsection \<open>\<^verbatim>\<open>Query\<close>\<close>

text \<open>
  The inner loop of \<^verbatim>\<open>Query.evaluate\<close> on one instance: true when the \<^verbatim>\<open>else\<close> branch of
  the \<^verbatim>\<open>for\<close> is reached.
\<close>

fun inst_matches :: "nat \<Rightarrow> metamodel \<Rightarrow> inst \<Rightarrow> (string \<times> val) list \<Rightarrow> error + bool" where
  "inst_matches d m i [] = Inr True"
| "inst_matches d m i ((name, v) # rest) =
     (case getattr d m i name of
        Inl e \<Rightarrow> Inl e
      | Inr w \<Rightarrow>
          if \<not> py_eq w v then Inr False
          else (case is_null d m i name of
                  Inl e \<Rightarrow> Inl e
                | Inr True \<Rightarrow> Inr False
                | Inr False \<Rightarrow> inst_matches d m i rest))"

text \<open>
  The outer loop of the generator from the pool element with index \<open>i\<close> on, up to its
  next \<^verbatim>\<open>yield\<close>: the instance yielded and the index behind it, or nothing at the end of
  the pool.
\<close>

fun scan ::
  "nat \<Rightarrow> metamodel \<Rightarrow> (string \<times> val) list \<Rightarrow> inst list \<Rightarrow> nat \<Rightarrow> error + (inst \<times> nat) option" where
  "scan d m items [] i = Inr None"
| "scan d m items (x # xs) i =
     (case inst_matches d m x items of
        Inl e \<Rightarrow> Inl e
      | Inr True \<Rightarrow> Inr (Some (x, Suc i))
      | Inr False \<Rightarrow> scan d m items xs (Suc i))"

datatype 'a step = Yield 'a | Stop | Raise error

text \<open>
  \<^verbatim>\<open>next(self.evaluation)\<close> on a query whose \<^verbatim>\<open>evaluation\<close> is a generator. A generator
  that an exception has left, or that has returned, raises \<^verbatim>\<open>StopIteration\<close>.
\<close>

definition q_next :: "nat \<Rightarrow> metamodel \<Rightarrow> query \<Rightarrow> query \<times> inst step" where
  "q_next d m q =
     (case q_evaluation q of
        None \<Rightarrow> (q, Stop)
      | Some Dead \<Rightarrow> (q, Stop)
      | Some (Gen i) \<Rightarrow>
          (case scan d m (q_items q) (drop i (q_storage q)) i of
             Inl e \<Rightarrow> (q\<lparr>q_evaluation := Some Dead\<rparr>, Raise e)
           | Inr None \<Rightarrow> (q\<lparr>q_evaluation := None\<rparr>, Stop)
           | Inr (Some (x, j)) \<Rightarrow>
               (q\<lparr>q_result := q_result q @ [x], q_evaluation := Some (Gen j)\<rparr>, Yield x)))"

definition Query_init :: "nat \<Rightarrow> inst list \<Rightarrow> (string \<times> val) list \<Rightarrow> query" where
  "Query_init a pool kwargs =
     \<lparr>q_id = a, q_storage = pool, q_items = kwargs, q_result = [], q_evaluation = Some (Gen 0)\<rparr>"

subsection \<open>\<^verbatim>\<open>MetaClass.query\<close> and the loops over its result\<close>

text \<open>
  The cache is keyed by \<^verbatim>\<open>frozenset(items)\<close>. Python compares and hashes numbers by value
  (\<^verbatim>\<open>1 == 1.0 == True\<close>), so the values of a key are taken to one representative.
\<close>

definition canon :: "val \<Rightarrow> val" where
  "canon v = (case num_of v of Some r \<Rightarrow> VReal r | None \<Rightarrow> v)"

definition frozen :: "(string \<times> val) list \<Rightarrow> (string \<times> val) set" where
  "frozen kwargs = (\<lambda>(name, v). (name, canon v)) ` set kwargs"

text \<open>
  \<^verbatim>\<open>MetaClass.query\<close> up to the call of \<^verbatim>\<open>execute\<close>, which only makes a generator: the
  query under the key is created when the cache has none.
\<close>

definition mc_query :: "metamodel \<Rightarrow> mcid \<Rightarrow> (string \<times> val) list \<Rightarrow> metamodel" where
  "mc_query m self kwargs =
     (let me = mc_heap m self; index = frozen kwargs
      in if index \<in> dom (cache me) then m
         else m\<lparr>mc_heap := (mc_heap m)
                  (self := me\<lparr>cache := (cache me)
                     (index \<mapsto> Query_init (n_queries m) (storage me) kwargs)\<rparr>),
                n_queries := Suc (n_queries m)\<rparr>)"

definition put_query :: "metamodel \<Rightarrow> mcid \<Rightarrow> (string \<times> val) set \<Rightarrow> query \<Rightarrow> metamodel" where
  "put_query m c index q =
     m\<lparr>mc_heap := (mc_heap m)(c := (mc_heap m c)\<lparr>cache := (cache (mc_heap m c))(index \<mapsto> q)\<rparr>)\<rparr>"

text \<open>
  \<^verbatim>\<open>for x in metaclass.query(kwargs): body(x)\<close>, for a body that leaves every cache
  alone (\<^verbatim>\<open>relate\<close> and \<^verbatim>\<open>connect\<close> do), so that the query stays the entry under its
  key. First the elements of \<^verbatim>\<open>result\<close> are replayed, then the generator is resumed: it
  tests the pool elements one by one against the metamodel as the body has left it, and
  each match is appended to \<^verbatim>\<open>result\<close> before the body runs on it.
\<close>

fun for_replay ::
  "(metamodel \<Rightarrow> inst \<Rightarrow> metamodel \<times> error option) \<Rightarrow> metamodel \<Rightarrow> inst list \<Rightarrow>
   metamodel \<times> error option" where
  "for_replay body m [] = (m, None)"
| "for_replay body m (x # xs) =
     (case body m x of
        (m1, Some e) \<Rightarrow> (m1, Some e)
      | (m1, None) \<Rightarrow> for_replay body m1 xs)"

fun for_resume ::
  "nat \<Rightarrow> (metamodel \<Rightarrow> inst \<Rightarrow> metamodel \<times> error option) \<Rightarrow> mcid \<Rightarrow> (string \<times> val) set \<Rightarrow>
   query \<Rightarrow> metamodel \<Rightarrow> inst list \<Rightarrow> nat \<Rightarrow> metamodel \<times> error option" where
  "for_resume d body c index q m [] i = (put_query m c index (q\<lparr>q_evaluation := None\<rparr>), None)"
| "for_resume d body c index q m (x # xs) i =
     (case inst_matches d m x (q_items q) of
        Inl e \<Rightarrow> (put_query m c index (q\<lparr>q_evaluation := Some Dead\<rparr>), Some e)
      | Inr False \<Rightarrow> for_resume d body c index q m xs (Suc i)
      | Inr True \<Rightarrow>
          (let q1 = q\<lparr>q_result := q_result q @ [x], q_evaluation := Some (Gen (Suc i))\<rparr>
           in case body (put_query m c index q1) x of
                (m1, Some e) \<Rightarrow> (m1, Some e)
              | (m1, None) \<Rightarrow> for_resume d body c index q1 m1 xs (Suc i)))"

definition for_query ::
  "nat \<Rightarrow> (metamodel \<Rightarrow> inst \<Rightarrow> metamodel \<times> error option) \<Rightarrow> metamodel \<Rightarrow> mcid \<Rightarrow>
   (string \<times> val) list \<Rightarrow> metamodel \<times> error option" where
  "for_query d body m c kwargs =
     (let m0 = mc_query m c kwargs;
          index = frozen kwargs;
          q = the (cache (mc_heap m0 c) index)
      in case for_replay body m0 (q_result q) of
           (m1, Some e) \<Rightarrow> (m1, Some e)
         | (m1, None) \<Rightarrow>
             (case q_evaluation q of
                Some (Gen i) \<Rightarrow> for_resume d body c index q m1 (drop i (q_storage q)) i
              | _ \<Rightarrow> (m1, None)))"

subsection \<open>\<^verbatim>\<open>MetaClass.default_value\<close> and \<^verbatim>\<open>MetaClass.new\<close>\<close>

definition default_value :: "metamodel \<Rightarrow> string \<Rightarrow> metamodel \<times> (error + val)" where
  "default_value m type_name =
     (let uname = upper type_name
      in if uname = ''BOOLEAN'' then (m, Inr (VBool False))
         else if uname = ''INTEGER'' then (m, Inr (VInt 0))
         else if uname = ''REAL'' then (m, Inr (VReal 0))
         else if uname = ''STRING'' then (m, Inr (VStr []))
         else if uname = ''UNIQUE_ID''
              then (m\<lparr>id_generator := id_generator m + 1\<rparr>, Inr (VInt (id_generator m)))
         else (m, Inl MetaException))"

fun new_defaults ::
  "metamodel \<Rightarrow> mcid \<Rightarrow> inst \<Rightarrow> (string \<times> string) list \<Rightarrow> metamodel \<times> error option" where
  "new_defaults m self i [] = (m, None)"
| "new_defaults m self i ((name, ty) # rest) =
     (if name \<in> referential_attributes (mc_heap m self) then new_defaults m self i rest
      else case default_value m ty of
             (m1, Inl e) \<Rightarrow> (m1, Some e)
           | (m1, Inr v) \<Rightarrow> new_defaults (setattr m1 i name v) self i rest)"

text \<open>
  The loops over the positional and over the named arguments: a referential attribute is
  put aside in the local dictionary \<^verbatim>\<open>referential_attributes\<close>.
\<close>

fun new_assign ::
  "metamodel \<Rightarrow> mcid \<Rightarrow> inst \<Rightarrow> (string \<times> val) list \<Rightarrow> (string \<times> val) list \<Rightarrow>
   metamodel \<times> (string \<times> val) list" where
  "new_assign m self i [] refs = (m, refs)"
| "new_assign m self i ((name, v) # rest) refs =
     (if name \<notin> referential_attributes (mc_heap m self)
      then new_assign (setattr m i name v) self i rest refs
      else new_assign m self i rest (AList.update name v refs))"

definition relate_body ::
  "inst \<Rightarrow> string \<Rightarrow> string \<Rightarrow> metamodel \<Rightarrow> inst \<Rightarrow> metamodel \<times> error option" where
  "relate_body i rid phr m other_inst =
     (case relate m (Some other_inst) (Some i) (RStr rid) phr of
        (m1, Inl e) \<Rightarrow> (m1, Some e)
      | (m1, Inr _) \<Rightarrow> (m1, None))"

fun new_batch_relate ::
  "nat \<Rightarrow> metamodel \<Rightarrow> inst \<Rightarrow> (string \<times> val) list \<Rightarrow> lid list \<Rightarrow> metamodel \<times> error option" where
  "new_batch_relate d m i refs [] = (m, None)"
| "new_batch_relate d m i refs (l # rest) =
     (let lnk = link_heap m l
      in if snd ` set (key_map lnk) - fst ` set refs \<noteq> {} then new_batch_relate d m i refs rest
         else
           let kwargs = map (\<lambda>(key, value). (key, the (map_of refs value))) (key_map lnk)
           in if kwargs = [] then new_batch_relate d m i refs rest
              else case for_query d (relate_body i (rel_id lnk) (phrase lnk)) m
                          (to_metaclass lnk) kwargs of
                     (m1, Some e) \<Rightarrow> (m1, Some e)
                   | (m1, None) \<Rightarrow> new_batch_relate d m1 i refs rest)"

text \<open>The last loop only logs a warning, but its \<^verbatim>\<open>getattr\<close> may raise.\<close>

fun new_check :: "nat \<Rightarrow> metamodel \<Rightarrow> inst \<Rightarrow> (string \<times> val) list \<Rightarrow> error option" where
  "new_check d m i [] = None"
| "new_check d m i ((name, v) # rest) =
     (case getattr d m i name of Inl e \<Rightarrow> Some e | Inr _ \<Rightarrow> new_check d m i rest)"

definition new ::
  "nat \<Rightarrow> metamodel \<Rightarrow> mcid \<Rightarrow> val list \<Rightarrow> (string \<times> val) list \<Rightarrow> metamodel \<times> (error + inst)" where
  "new d m self args kwargs =
     (let i = n_insts m;
          me = mc_heap m self;
          m0 = m\<lparr>mc_heap := (mc_heap m)(self := me\<lparr>cache := Map.empty, storage := storage me @ [i]\<rparr>),
                 inst_class := (inst_class m)(i := self),
                 inst_dict := (inst_dict m)(i := Map.empty),
                 n_insts := Suc i\<rparr>
      in case new_defaults m0 self i (attributes me) of
           (m1, Some e) \<Rightarrow> (m1, Inl e)
         | (m1, None) \<Rightarrow>
             let (m2, refs2) = new_assign m1 self i (zip (map fst (attributes me)) args) [];
                 (m3, refs) = new_assign m2 self i kwargs refs2
             in if refs = [] then (m3, Inr i)
                else (case new_batch_relate d m3 i refs (map snd (links (mc_heap m3 self))) of
                        (m4, Some e) \<Rightarrow> (m4, Inl e)
                      | (m4, None) \<Rightarrow>
                          (case new_check d m4 i refs of
                             Some e \<Rightarrow> (m4, Inl e)
                           | None \<Rightarrow> (m4, Inr i))))"

subsection \<open>\<^verbatim>\<open>Association.formalize\<close> and \<^verbatim>\<open>Association.batch_relate\<close>\<close>

text \<open>\<^verbatim>\<open>dict(zip(keys, values))\<close>\<close>

definition dict_zip :: "'a list \<Rightarrow> 'b list \<Rightarrow> ('a \<times> 'b) list" where
  "dict_zip ks vs = fold (\<lambda>(k, v). AList.update k v) (zip ks vs) []"

text \<open>
  The loop that installs the properties. \<^verbatim>\<open>hasattr(source_class.clazz, ref_key)\<close> is
  true for a property installed before (and for the names that every class inherits from
  \<^verbatim>\<open>Class\<close> and \<^verbatim>\<open>object\<close>, which no schema uses for an attribute).
\<close>

fun formalize_props ::
  "metamodel \<Rightarrow> mcid \<Rightarrow> lid \<Rightarrow> (string \<times> string) list \<Rightarrow> metamodel" where
  "formalize_props m source_class tlk [] = m"
| "formalize_props m source_class tlk ((ref_key, primary_key) # rest) =
     (let sc = mc_heap m source_class;
          installed = m\<lparr>mc_heap := (mc_heap m)
             (source_class := sc\<lparr>props := AList.update ref_key (tlk, primary_key) (props sc)\<rparr>)\<rparr>
      in if \<not> conditional (link_heap m tlk) then formalize_props installed source_class tlk rest
         else if ref_key \<notin> fst ` set (props sc) then formalize_props installed source_class tlk rest
         else formalize_props m source_class tlk rest)"

definition formalize :: "metamodel \<Rightarrow> association \<Rightarrow> metamodel" where
  "formalize m ass =
     (let slk = source_link ass; tlk = target_link ass;
          source_class = to_metaclass (link_heap m slk);
          target_class = to_metaclass (link_heap m tlk);
          m1 = m\<lparr>link_heap := (link_heap m)
                 (slk := (link_heap m slk)\<lparr>key_map := dict_zip (source_keys ass) (target_keys ass)\<rparr>)\<rparr>;
          m2 = m1\<lparr>link_heap := (link_heap m1)
                 (tlk := (link_heap m1 tlk)\<lparr>key_map := dict_zip (target_keys ass) (source_keys ass)\<rparr>)\<rparr>;
          m3 = m2\<lparr>mc_heap := (mc_heap m2)
                 (source_class := (mc_heap m2 source_class)
                    \<lparr>referential_attributes :=
                       referential_attributes (mc_heap m2 source_class) \<union> set (source_keys ass)\<rparr>)\<rparr>;
          m4 = m3\<lparr>mc_heap := (mc_heap m3)
                 (target_class := (mc_heap m3 target_class)
                    \<lparr>identifying_attributes :=
                       identifying_attributes (mc_heap m3 target_class) \<union> set (target_keys ass)\<rparr>)\<rparr>
      in formalize_props m4 source_class tlk (zip (source_keys ass) (target_keys ass)))"

fun batch_kwargs ::
  "nat \<Rightarrow> metamodel \<Rightarrow> inst \<Rightarrow> (string \<times> string) list \<Rightarrow> (string \<times> val) list \<Rightarrow>
   error + (string \<times> val) list" where
  "batch_kwargs d m inst1 [] kwargs = Inr kwargs"
| "batch_kwargs d m inst1 ((ref_key, primary_key) # rest) kwargs =
     (case getattr d m inst1 ref_key of
        Inl e \<Rightarrow> Inl e
      | Inr v \<Rightarrow> batch_kwargs d m inst1 rest (AList.update primary_key v kwargs))"

definition batch_body :: "association \<Rightarrow> inst \<Rightarrow> metamodel \<Rightarrow> inst \<Rightarrow> metamodel \<times> error option" where
  "batch_body ass inst1 m inst2 =
     (let m1 = fst (link_connect m (source_link ass) inst2 inst1 False);
          m2 = fst (link_connect m1 (target_link ass) inst1 inst2 False)
      in (m2, None))"

fun batch_loop ::
  "nat \<Rightarrow> metamodel \<Rightarrow> association \<Rightarrow> inst list \<Rightarrow> metamodel \<times> error option" where
  "batch_loop d m ass [] = (m, None)"
| "batch_loop d m ass (inst1 # rest) =
     (case batch_kwargs d m inst1 (zip (source_keys ass) (target_keys ass)) [] of
        Inl e \<Rightarrow> (m, Some e)
      | Inr kwargs \<Rightarrow>
          (case for_query d (batch_body ass inst1) m
                  (to_metaclass (link_heap m (target_link ass))) kwargs of
             (m1, Some e) \<Rightarrow> (m1, Some e)
           | (m1, None) \<Rightarrow> batch_loop d m1 ass rest))"

definition batch_relate :: "nat \<Rightarrow> metamodel \<Rightarrow> association \<Rightarrow> metamodel \<times> error option" where
  "batch_relate d m ass =
     batch_loop d m ass (storage (mc_heap m (to_metaclass (link_heap m (source_link ass)))))"

subsection \<open>Consumers of \<^verbatim>\<open>Query.execute\<close>\<close>

text \<open>
  \<^verbatim>\<open>while self.evaluation: yield next(self.evaluation)\<close>, for a consumer that asks for at
  most \<open>n\<close> elements and for one that iterates to the end. \<^verbatim>\<open>StopIteration\<close> out of
  \<^verbatim>\<open>next\<close> ends the generator \<^verbatim>\<open>execute\<close>, as it does in the Python versions this
  module runs on (it imports \<^verbatim>\<open>future_builtins\<close> and uses \<^verbatim>\<open>collections.Iterable\<close>).
\<close>

datatype outcome = Paused | Done | Failed error

fun pull :: "nat \<Rightarrow> metamodel \<Rightarrow> query \<Rightarrow> nat \<Rightarrow> query \<times> inst list \<times> outcome" where
  "pull d m q 0 = (q, [], Paused)"
| "pull d m q (Suc n) =
     (case q_evaluation q of
        None \<Rightarrow> (q, [], Done)
      | Some g \<Rightarrow>
          (case q_next d m q of
             (q1, Yield x) \<Rightarrow> (case pull d m q1 n of (q2, xs, out) \<Rightarrow> (q2, x # xs, out))
           | (q1, Stop) \<Rightarrow> (q1, [], Done)
           | (q1, Raise e) \<Rightarrow> (q1, [], Failed e)))"

text \<open>
  A call of \<^verbatim>\<open>execute()\<close> whose consumer takes \<open>n\<close> elements and stops: the elements of
  \<^verbatim>\<open>result\<close> first, then the generator.
\<close>

definition execute_take :: "nat \<Rightarrow> metamodel \<Rightarrow> query \<Rightarrow> nat \<Rightarrow> query \<times> inst list \<times> outcome" where
  "execute_take d m q n =
     (if n \<le> length (q_result q) then (q, take n (q_result q), Paused)
      else case pull d m q (n - length (q_result q)) of
             (q1, xs, out) \<Rightarrow> (q1, q_result q @ xs, out))"

text \<open>The number of pool elements the generator has not looked at yet.\<close>

definition pending :: "query \<Rightarrow> nat" where
  "pending q = (case q_evaluation q of Some (Gen i) \<Rightarrow> Suc (length (q_storage q) - i) | _ \<Rightarrow> 0)"

text \<open>A call of \<^verbatim>\<open>execute()\<close> whose consumer iterates to the end.\<close>

function run_all :: "nat \<Rightarrow> metamodel \<Rightarrow> query \<Rightarrow> query \<times> inst list \<times> outcome" where
  "run_all d m q =
     (case q_evaluation q of
        None \<Rightarrow> (q, [], Done)
      | Some g \<Rightarrow>
          (case q_next d m q of
             (q1, Yield x) \<Rightarrow> (case run_all d m q1 of (q2, xs, out) \<Rightarrow> (q2, x # xs, out))
           | (q1, Stop) \<Rightarrow> (q1, [], Done)
           | (q1, Raise e) \<Rightarrow> (q1, [], Failed e)))"
  by pat_completeness auto
termination
proof (relation "measure (\<lambda>(d, m, q). pending q)")
  show "wf (measure (\<lambda>(d, m, q). pending q))" by simp
next
  fix d :: nat and m :: metamodel and q q1 :: query and g y x
  assume "q_evaluation q = Some g" and nxt: "(q1, y) = q_next d m q" and y: "y = Yield x"
  have idx: "scan d m items xs i = Inr (Some (z, j)) \<Longrightarrow> i < j \<and> j \<le> i + length xs"
    for items xs i z j
    by (induction xs arbitrary: i) (fastforce split: sum.splits bool.splits)+
  from nxt [symmetric] y have "pending q1 < pending q"
    by (auto simp: q_next_def pending_def split: option.splits evaluation.splits sum.splits
             dest!: idx)
  then show "((d, m, q1), (d, m, q)) \<in> measure (\<lambda>(d, m, q). pending q)" by simp
qed

declare run_all.simps [simp del]

definition execute_all :: "nat \<Rightarrow> metamodel \<Rightarrow> query \<Rightarrow> query \<times> inst list \<times> outcome" where
  "execute_all d m q = (case run_all d m q of (q1, xs, out) \<Rightarrow> (q1, q_result q @ xs, out))"

subsection \<open>Navigation and \<^verbatim>\<open>sort_reflexive\<close>\<close>

text \<open>
  \<^verbatim>\<open>navigate_one(inst).nav(kind, rel_id, phrase)()\<close>: \<^verbatim>\<open>NavChain._nav\<close> normalises the
  relation id and calls \<^verbatim>\<open>MetaClass.navigate\<close> of the instance; \<^verbatim>\<open>NavOneChain.__call__\<close>
  takes the first element the neighbour set yields, or \<^verbatim>\<open>None\<close>.
\<close>

definition navigate_one_nav ::
  "metamodel \<Rightarrow> inst \<Rightarrow> string \<Rightarrow> relid \<Rightarrow> string \<Rightarrow> error + inst option" where
  "navigate_one_nav m i knd r phr =
     (case mc_navigate m (inst_class m i) i knd (RStr (norm_rel_id r)) phr of
        Inl e \<Rightarrow> Inl e
      | Inr s \<Rightarrow> Inr (case set_iter m s of [] \<Rightarrow> None | x # _ \<Rightarrow> Some x))"

text \<open>
  Modelled from the spec: \<^verbatim>\<open>xtuml.OrderedSet\<close>, the base class of \<^verbatim>\<open>QuerySet\<close>, is not
  among the sources; the spec calls a \<^verbatim>\<open>QuerySet\<close> ``an ordered set preserving
  first-encounter order''. A \<^verbatim>\<open>QuerySet\<close> is the list of its elements without
  repetition; building one from an iterable keeps the first occurrence of each element.
\<close>

definition OrderedSet :: "'a list \<Rightarrow> 'a list" where
  "OrderedSet xs = fold (\<lambda>x acc. if x \<in> set acc then acc else acc @ [x]) xs []"

text \<open>The loop of \<^verbatim>\<open>sort_reflexive\<close> that finds the phrase of the other direction.\<close>

fun other_phrase_loop :: "metamodel \<Rightarrow> mcid \<Rightarrow> string \<Rightarrow> string \<Rightarrow> lid list \<Rightarrow> string option" where
  "other_phrase_loop m metaclass rid phr [] = None"
| "other_phrase_loop m metaclass rid phr (l # rest) =
     (if to_metaclass (link_heap m l) \<noteq> metaclass then other_phrase_loop m metaclass rid phr rest
      else if rel_id (link_heap m l) \<noteq> rid then other_phrase_loop m metaclass rid phr rest
      else if phrase (link_heap m l) = phr then other_phrase_loop m metaclass rid phr rest
      else Some (phrase (link_heap m l)))"

text \<open>\<^verbatim>\<open>list(filter(first_filt, set_of_instances))\<close>; an instance is always true.\<close>

fun first_filter ::
  "metamodel \<Rightarrow> string \<Rightarrow> string \<Rightarrow> string \<Rightarrow> inst list \<Rightarrow> error + inst list" where
  "first_filter m knd rid phr [] = Inr []"
| "first_filter m knd rid phr (sel # rest) =
     (case navigate_one_nav m sel knd (RStr rid) phr of
        Inl e \<Rightarrow> Inl e
      | Inr r \<Rightarrow>
          (case first_filter m knd rid phr rest of
             Inl e \<Rightarrow> Inl e
           | Inr xs \<Rightarrow> Inr (if r = None then sel # xs else xs)))"

text \<open>
  The \<^verbatim>\<open>while inst:\<close> loop of \<^verbatim>\<open>sequence_generator\<close> from one first instance. It need
  not end (a chain that runs into a cycle which does not contain \<^verbatim>\<open>first\<close>), so the
  result is optional: \<open>None\<close> when the loop runs for ever.
\<close>

partial_function (option) walk ::
  "metamodel \<Rightarrow> string \<Rightarrow> string \<Rightarrow> string \<Rightarrow> inst \<Rightarrow> inst \<Rightarrow> inst list \<Rightarrow>
   (error + inst list) option" where
  "walk m knd rid other_phrase first i acc =
     (case navigate_one_nav m i knd (RStr rid) other_phrase of
        Inl e \<Rightarrow> Some (Inl e)
      | Inr None \<Rightarrow> Some (Inr (acc @ [i]))
      | Inr (Some j) \<Rightarrow>
          if j = first then Some (Inr (acc @ [i]))
          else walk m knd rid other_phrase first j (acc @ [i]))"

fun sequence_generator ::
  "metamodel \<Rightarrow> string \<Rightarrow> string \<Rightarrow> string \<Rightarrow> inst list \<Rightarrow> (error + inst list) option" where
  "sequence_generator m knd rid other_phrase [] = Some (Inr [])"
| "sequence_generator m knd rid other_phrase (first # rest) =
     (case walk m knd rid other_phrase first first [] of
        None \<Rightarrow> None
      | Some (Inl e) \<Rightarrow> Some (Inl e)
      | Some (Inr xs) \<Rightarrow>
          (case sequence_generator m knd rid other_phrase rest of
             None \<Rightarrow> None
           | Some (Inl e) \<Rightarrow> Some (Inl e)
           | Some (Inr ys) \<Rightarrow> Some (Inr (xs @ ys))))"

text \<open>
  \<^verbatim>\<open>sort_reflexive\<close> on a \<^verbatim>\<open>QuerySet\<close> (the \<^verbatim>\<open>isinstance\<close> test is the type of the
  argument here).
\<close>

definition sort_reflexive ::
  "metamodel \<Rightarrow> inst list \<Rightarrow> relid \<Rightarrow> string \<Rightarrow> (error + inst list) option" where
  "sort_reflexive m set_of_instances r phr =
     (case set_of_instances of
        [] \<Rightarrow> Some (Inr [])
      | first # _ \<Rightarrow>
          (let rid = norm_rel_id r;
               metaclass = inst_class m first;
               knd = kind (mc_heap m metaclass)
           in case other_phrase_loop m metaclass rid phr (map snd (links (mc_heap m metaclass))) of
                None \<Rightarrow> Some (Inl UnknownLinkException)
              | Some other_phrase \<Rightarrow>
                  (case first_filter m knd rid phr set_of_instances of
                     Inl e \<Rightarrow> Some (Inl e)
                   | Inr firsts \<Rightarrow>
                       (let first_instances = (if firsts = [] then [first] else firsts)
                        in case sequence_generator m knd rid other_phrase first_instances of
                             None \<Rightarrow> None
                           | Some (Inl e) \<Rightarrow> Some (Inl e)
                           | Some (Inr xs) \<Rightarrow> Some (Inr (OrderedSet xs))))))"

subsection \<open>Drivers and example metamodels\<close>

text \<open>A client that connects \<open>a\<close> to each element of a list in turn.\<close>

fun connect_each :: "link \<Rightarrow> inst \<Rightarrow> inst list \<Rightarrow> bool \<Rightarrow> link" where
  "connect_each l a [] check = l"
| "connect_each l a (b # bs) check = connect_each (fst (connect l a b check)) a bs check"

text \<open>
  Two classes and the association R1 of the spec's first scenario: a dog is owned by
  one person (\<open>owner_id\<close> refers to \<open>id\<close>). \<open>Person\<close> is metaclass 0, \<open>Dog\<close> is
  metaclass 1; link 0 goes from \<open>Person\<close> to \<open>Dog\<close> (the source link), link 1 from
  \<open>Dog\<close> to \<open>Person\<close> (the target link). Sets are iterated in ascending order of
  address in the examples.
\<close>

definition ex_classes :: metamodel where
  "ex_classes =
     fst (define_class
            (fst (define_class (MetaModel_init 1 sorted_list_of_set) ''Person''
                    [(''id'', ''UNIQUE_ID''), (''name'', ''STRING'')]))
            ''Dog'' [(''name'', ''STRING''), (''owner_id'', ''UNIQUE_ID'')])"

definition ex_schema :: metamodel where
  "ex_schema =
     fst (define_association ex_classes (RInt 1) ''Dog'' [''owner_id''] False True []
            ''Person'' [''id''] False False [])"

definition ex_R1 :: association where
  "ex_R1 = \<lparr>a_rel_id = ''R1'', source_keys = [''owner_id''], source_link = 0,
            target_keys = [''id''], target_link = 1\<rparr>"

text \<open>Person 0 (id 42), dog 1 and person 2 (id 43), none of them related.\<close>

definition ex_pop :: metamodel where
  "ex_pop =
     fst (new 1 (fst (new 1 (fst (new 1 ex_schema 0 [VInt 42, VStr ''A''] []))
                        1 [VStr ''Rex''] []))
            0 [VInt 43, VStr ''B''] [])"

text \<open>The dog related to person 0.\<close>

definition ex_related :: metamodel where
  "ex_related = fst (relate ex_pop (Some 1) (Some 0) (RInt 1) [])"

text \<open>
  A population with two persons of the same id 42 (persons 0 and 2) and dog 1 with
  \<open>owner_id\<close> 42, created before the association is formalized, and then
  \<^verbatim>\<open>batch_relate\<close> on R1: the dog is connected to both persons, though the link from
  \<open>Dog\<close> to \<open>Person\<close> is not many.
\<close>

definition ex_dup :: metamodel where
  "ex_dup =
     fst (batch_relate 1
       (fst (new 1 (fst (new 1 (fst (new 1 ex_schema 0 [VInt 42, VStr ''A''] []))
                          1 [VStr ''Rex'', VInt 42] []))
              0 [VInt 42, VStr ''B''] [])) ex_R1)"

text \<open>A link with \<open>many\<close> set and no neighbours yet.\<close>

definition ex_link :: link where
  "ex_link = Link_init 0 (RInt 1) 0 [] False True"

text \<open>
  Every query in the cache of metaclass \<open>c\<close> is an object made when \<open>n\<close> queries had
  been made already, or later.
\<close>

definition cache_since :: "nat \<Rightarrow> mcid \<Rightarrow> metamodel \<Rightarrow> bool" where
  "cache_since n c m \<longleftrightarrow>
     n \<le> n_queries m \<and> (\<forall>index q. cache (mc_heap m c) index = Some q \<longrightarrow> n \<le> q_id q)"

text \<open>
  The population \<open>ex_pop\<close> after \<^verbatim>\<open>select_many('Person', {'name': 'A'})\<close> has put
  its query into the cache of \<open>Person\<close>.
\<close>

definition ex_cached :: metamodel where
  "ex_cached = mc_query ex_pop 0 [(''name'', VStr ''A'')]"

text \<open>
  The spec's first scenario: R1 is formalized, then person 0 (id 42) and dog 1 are
  created; the dog is related to the person, and unrelated again.
\<close>

definition ex_formal :: metamodel where
  "ex_formal = formalize ex_schema ex_R1"

definition ex_fpop :: metamodel where
  "ex_fpop = fst (new 1 (fst (new 1 ex_formal 0 [VInt 42, VStr ''A''] [])) 1 [VStr ''Rex''] [])"

definition ex_frelated :: metamodel where
  "ex_frelated = fst (relate ex_fpop (Some 1) (Some 0) (RInt 1) [])"

definition ex_funrelated :: metamodel where
  "ex_funrelated = fst (unrelate ex_frelated (Some 1) (Some 0) (RInt 1) [])"

section \<open>Properties\<close>

subsection \<open>Links\<close>

lemma connect_from [simp]: "from_metaclass (fst (connect l a b c)) = from_metaclass l"
  and connect_to [simp]: "to_metaclass (fst (connect l a b c)) = to_metaclass l"
  and connect_phrase [simp]: "phrase (fst (connect l a b c)) = phrase l"
  and connect_many [simp]: "many (fst (connect l a b c)) = many l"
  by (simp_all add: connect_def Let_def)

lemma connect_result:
  "snd (connect l a b c) \<longleftrightarrow> b \<in> navigate l a \<or> navigate l a = {} \<or> many l \<or> \<not> c"
  by (auto simp: connect_def navigate_def Let_def dom_def split: option.splits)

lemma navigate_connect:
  "navigate (fst (connect l a b c)) x =
     (if x = a \<and> snd (connect l a b c) then insert b (navigate l a) else navigate l x)"
  by (auto simp: connect_def navigate_def Let_def dom_def split: option.splits)

lemma connect_present: "b \<in> navigate l a \<Longrightarrow> connect l a b c = (l, True)"
  by (auto simp: connect_def navigate_def Let_def dom_def split: option.splits)

lemma disconnect_from [simp]: "from_metaclass (fst (disconnect l a b)) = from_metaclass l"
  and disconnect_to [simp]: "to_metaclass (fst (disconnect l a b)) = to_metaclass l"
  and disconnect_phrase [simp]: "phrase (fst (disconnect l a b)) = phrase l"
  and disconnect_many [simp]: "many (fst (disconnect l a b)) = many l"
  by (simp_all add: disconnect_def split: option.splits)

lemma disconnect_result: "snd (disconnect l a b) \<longleftrightarrow> b \<in> navigate l a"
  by (simp add: disconnect_def navigate_def split: option.splits)

lemma navigate_disconnect:
  "navigate (fst (disconnect l a b)) x = (if x = a then navigate l a - {b} else navigate l x)"
  by (auto simp: disconnect_def navigate_def split: option.splits)

lemma find_ass_heap:
  assumes "\<And>l. from_metaclass (h' l) = from_metaclass (link_heap m l)"
    and "\<And>l. to_metaclass (h' l) = to_metaclass (link_heap m l)"
    and "\<And>l. phrase (h' l) = phrase (link_heap m l)"
  shows "find_ass (m\<lparr>link_heap := h'\<rparr>) as c1 c2 i1 i2 rid phr = find_ass m as c1 c2 i1 i2 rid phr"
  using assms by (induction as) simp_all

lemma find_link_between_connect:
  "find_link_between (fst (link_connect m l a b c)) i j r phr = find_link_between m i j r phr"
  by (simp add: find_link_between_def link_connect_def split_beta find_ass_heap)

lemma find_link_between_disconnect:
  "find_link_between (fst (link_disconnect m l a b)) i j r phr = find_link_between m i j r phr"
  by (simp add: find_link_between_def link_disconnect_def split_beta find_ass_heap)

lemma link_connect_present:
  "b \<in> navigate (link_heap m l) a \<Longrightarrow> link_connect m l a b c = (m, True)"
  by (simp add: link_connect_def connect_present)

lemma link_connect_result:
  "snd (link_connect m l a b c) \<longleftrightarrow>
     b \<in> navigate (link_heap m l) a \<or> navigate (link_heap m l) a = {} \<or> many (link_heap m l) \<or> \<not> c"
  by (simp add: link_connect_def split_beta connect_result)

lemma navigate_link_connect:
  "navigate (link_heap (fst (link_connect m l a b c)) k) x =
     (if k = l \<and> x = a \<and> snd (link_connect m l a b c)
      then insert b (navigate (link_heap m l) a) else navigate (link_heap m k) x)"
  by (simp add: link_connect_def split_beta navigate_connect)

lemma many_link_connect [simp]:
  "many (link_heap (fst (link_connect m l a b c)) k) = many (link_heap m k)"
  by (simp add: link_connect_def split_beta)

lemma link_disconnect_result:
  "snd (link_disconnect m l a b) \<longleftrightarrow> b \<in> navigate (link_heap m l) a"
  by (simp add: link_disconnect_def split_beta disconnect_result)

lemma navigate_link_disconnect:
  "navigate (link_heap (fst (link_disconnect m l a b)) k) x =
     (if k = l \<and> x = a then navigate (link_heap m l) a - {b} else navigate (link_heap m k) x)"
  by (simp add: link_disconnect_def split_beta navigate_disconnect)

lemma link_connect_frame [simp]:
  "mc_heap (fst (link_connect m l a b c)) = mc_heap m"
  "inst_class (fst (link_connect m l a b c)) = inst_class m"
  "inst_dict (fst (link_connect m l a b c)) = inst_dict m"
  "associations (fst (link_connect m l a b c)) = associations m"
  "set_iter (fst (link_connect m l a b c)) = set_iter m"
  "n_queries (fst (link_connect m l a b c)) = n_queries m"
  by (simp_all add: link_connect_def split_beta)

lemma link_disconnect_frame [simp]:
  "mc_heap (fst (link_disconnect m l a b)) = mc_heap m"
  "inst_class (fst (link_disconnect m l a b)) = inst_class m"
  "inst_dict (fst (link_disconnect m l a b)) = inst_dict m"
  "associations (fst (link_disconnect m l a b)) = associations m"
  "set_iter (fst (link_disconnect m l a b)) = set_iter m"
  "n_queries (fst (link_disconnect m l a b)) = n_queries m"
  by (simp_all add: link_disconnect_def split_beta)

subsection \<open>\<^verbatim>\<open>relate\<close> and \<^verbatim>\<open>unrelate\<close>\<close>

lemma relate_related:
  assumes "find_link_between m a b r p = Inr (i1, i2, ass)"
    and "i2 \<in> navigate (link_heap m (source_link ass)) i1"
    and "i1 \<in> navigate (link_heap m (target_link ass)) i2"
  shows "relate m (Some a) (Some b) r p = (m, Inr True)"
  using assms by (simp add: relate_def link_connect_present)

lemma relate_success:
  assumes "relate m (Some a) (Some b) r p = (m1, Inr True)"
  shows "\<exists>i1 i2 ass. find_link_between m a b r p = Inr (i1, i2, ass) \<and>
           m1 = fst (link_connect (fst (link_connect m (source_link ass) i1 i2 True))
                      (target_link ass) i2 i1 True) \<and>
           snd (link_connect m (source_link ass) i1 i2 True) \<and>
           snd (link_connect (fst (link_connect m (source_link ass) i1 i2 True))
                      (target_link ass) i2 i1 True)"
  using assms
  by (auto simp: relate_def split_beta split: sum.splits if_splits)

text \<open>
  \<open>_find_link\<close> looks at the classes of the two instances only: it returns them in the
  order given or swapped, and does the same for any other two instances of these classes.
\<close>

lemma find_ass_shape:
  assumes "find_ass m as c1 c2 i1 i2 rid phr = Inr (x, y, ass)"
  shows "(x = i1 \<and> y = i2 \<and> find_ass m as c1 c2 j1 j2 rid phr = Inr (j1, j2, ass)) \<or>
         (x = i2 \<and> y = i1 \<and> find_ass m as c1 c2 j1 j2 rid phr = Inr (j2, j1, ass))"
  using assms by (induction as) (auto split: if_splits)

subsection \<open>The query cache\<close>

lemma relate_frame [simp]:
  "mc_heap (fst (relate m a b r p)) = mc_heap m"
  "n_queries (fst (relate m a b r p)) = n_queries m"
  by (auto simp: relate_def split_beta split: option.splits sum.splits)

lemma unrelate_frame [simp]:
  "mc_heap (fst (unrelate m a b r p)) = mc_heap m"
  "n_queries (fst (unrelate m a b r p)) = n_queries m"
  by (auto simp: unrelate_def split_beta split: option.splits sum.splits)

lemma cache_since_cong:
  "mc_heap m' = mc_heap m \<Longrightarrow> n_queries m' = n_queries m \<Longrightarrow>
   cache_since n c m' = cache_since n c m"
  by (simp add: cache_since_def)

lemma cache_since_setattr: "cache_since n c m \<Longrightarrow> cache_since n c (setattr m i name v)"
  by (auto simp: cache_since_def setattr_def Let_def split: option.splits)

lemma cache_since_default_value:
  "cache_since n c m \<Longrightarrow> cache_since n c (fst (default_value m ty))"
  by (auto simp: cache_since_def default_value_def Let_def)

lemma cache_since_new_defaults:
  "cache_since n c m \<Longrightarrow> cache_since n c (fst (new_defaults m self i attrs))"
proof (induction attrs arbitrary: m)
  case Nil
  then show ?case by simp
next
  case (Cons a attrs)
  obtain name ty where a: "a = (name, ty)" by (cases a)
  obtain m1 r where dv: "default_value m ty = (m1, r)" by (cases "default_value m ty")
  from Cons.prems have m1: "cache_since n c m1"
    using cache_since_default_value [of n c m ty] dv by simp
  show ?case
  proof (cases r)
    case (Inl e)
    with Cons a dv m1 show ?thesis by simp
  next
    case (Inr v)
    from m1 have "cache_since n c (setattr m1 i name v)" by (rule cache_since_setattr)
    from Cons.IH [OF this] Cons.IH [OF Cons.prems] a dv Inr show ?thesis by simp
  qed
qed

lemma cache_since_new_assign:
  "cache_since n c m \<Longrightarrow> cache_since n c (fst (new_assign m self i pairs refs))"
proof (induction pairs arbitrary: m refs)
  case Nil
  then show ?case by simp
next
  case (Cons a pairs)
  obtain name v where a: "a = (name, v)" by (cases a)
  from Cons.prems have "cache_since n c (setattr m i name v)" by (rule cache_since_setattr)
  from Cons.IH [OF this] Cons.IH [OF Cons.prems] a show ?case by simp
qed

lemma cache_since_mc_query: "cache_since n c m \<Longrightarrow> cache_since n c (mc_query m c' kwargs)"
  by (auto simp: cache_since_def mc_query_def Query_init_def Let_def)

lemma cache_since_put_query:
  "cache_since n c m \<Longrightarrow> (c' = c \<Longrightarrow> n \<le> q_id q) \<Longrightarrow> cache_since n c (put_query m c' index q)"
  by (auto simp: cache_since_def put_query_def)

lemma cache_since_for_replay:
  assumes body: "\<And>m x. cache_since n c m \<Longrightarrow> cache_since n c (fst (body m x))"
  shows "cache_since n c m \<Longrightarrow> cache_since n c (fst (for_replay body m xs))"
proof (induction xs arbitrary: m)
  case Nil
  then show ?case by simp
next
  case (Cons x xs)
  obtain m1 r where b: "body m x = (m1, r)" by (cases "body m x")
  with body [OF Cons.prems, of x] have m1: "cache_since n c m1" by simp
  show ?case
  proof (cases r)
    case None
    with Cons.IH [OF m1] b show ?thesis by simp
  next
    case (Some e)
    with m1 b show ?thesis by simp
  qed
qed

lemma cache_since_for_resume:
  assumes body: "\<And>m x. cache_since n c m \<Longrightarrow> cache_since n c (fst (body m x))"
  shows "cache_since n c m \<Longrightarrow> (c' = c \<Longrightarrow> n \<le> q_id q) \<Longrightarrow>
         cache_since n c (fst (for_resume d body c' index q m xs i))"
proof (induction xs arbitrary: m q i)
  case Nil
  then show ?case by (simp add: cache_since_put_query)
next
  case (Cons x xs)
  show ?case
  proof (cases "inst_matches d m x (q_items q)")
    case (Inl e)
    with Cons.prems show ?thesis by (simp add: cache_since_put_query)
  next
    case (Inr b)
    show ?thesis
    proof (cases b)
      case False
      with Inr Cons.IH [OF Cons.prems] show ?thesis by simp
    next
      case True
      let ?q1 = "q\<lparr>q_result := q_result q @ [x], q_evaluation := Some (Gen (Suc i))\<rparr>"
      have q1: "c' = c \<Longrightarrow> n \<le> q_id ?q1" using Cons.prems(2) by simp
      from Cons.prems(1) q1 have p: "cache_since n c (put_query m c' index ?q1)"
        by (rule cache_since_put_query)
      obtain m1 r where b1: "body (put_query m c' index ?q1) x = (m1, r)"
        by (cases "body (put_query m c' index ?q1) x")
      with body [OF p, of x] have m1: "cache_since n c m1" by simp
      show ?thesis
      proof (cases r)
        case None
        with Cons.IH [OF m1 q1] Inr True b1 show ?thesis by (simp add: Let_def)
      next
        case (Some e)
        with m1 Inr True b1 show ?thesis by (simp add: Let_def)
      qed
    qed
  qed
qed

lemma cache_since_for_query:
  assumes body: "\<And>m x. cache_since n c m \<Longrightarrow> cache_since n c (fst (body m x))"
    and m: "cache_since n c m"
  shows "cache_since n c (fst (for_query d body m c' kwargs))"
proof -
  let ?m0 = "mc_query m c' kwargs"
  let ?q = "the (cache (mc_heap ?m0 c') (frozen kwargs))"
  from m have m0: "cache_since n c ?m0" by (rule cache_since_mc_query)
  have "frozen kwargs \<in> dom (cache (mc_heap ?m0 c'))"
    by (auto simp: mc_query_def Let_def)
  then have "cache (mc_heap ?m0 c') (frozen kwargs) = Some ?q" by auto
  with m0 have q: "c' = c \<Longrightarrow> n \<le> q_id ?q" by (auto simp: cache_since_def)
  obtain m1 r where rp: "for_replay body ?m0 (q_result ?q) = (m1, r)"
    by (cases "for_replay body ?m0 (q_result ?q)")
  with cache_since_for_replay [of n c body ?m0 "q_result ?q", OF body m0]
  have m1: "cache_since n c m1" by simp
  show ?thesis
  proof (cases r)
    case (Some e)
    with m1 rp show ?thesis by (simp add: for_query_def Let_def)
  next
    case None
    show ?thesis
    proof (cases "q_evaluation ?q")
      case None
      with m1 rp \<open>r = None\<close> show ?thesis by (simp add: for_query_def Let_def)
    next
      case (Some g)
      show ?thesis
      proof (cases g)
        case Dead
        with Some m1 rp \<open>r = None\<close> show ?thesis by (simp add: for_query_def Let_def)
      next
        case (Gen i)
        from cache_since_for_resume [of n c body m1 c' ?q d "frozen kwargs" "drop i (q_storage ?q)" i,
            OF body m1 q]
        show ?thesis using Some Gen rp \<open>r = None\<close> by (simp add: for_query_def Let_def)
      qed
    qed
  qed
qed

lemma cache_since_relate_body:
  assumes "cache_since n c m"
  shows "cache_since n c (fst (relate_body i rid phr m x))"
proof -
  have "fst (relate_body i rid phr m x) = fst (relate m (Some x) (Some i) (RStr rid) phr)"
    by (cases "relate m (Some x) (Some i) (RStr rid) phr")
       (simp add: relate_body_def split: sum.splits)
  with assms show ?thesis by (simp add: cache_since_def)
qed

lemma cache_since_new_batch_relate:
  "cache_since n c m \<Longrightarrow> cache_since n c (fst (new_batch_relate d m i refs ls))"
proof (induction ls arbitrary: m)
  case Nil
  then show ?case by simp
next
  case (Cons l ls)
  let ?lnk = "link_heap m l"
  let ?kwargs = "map (\<lambda>(key, value). (key, the (map_of refs value))) (key_map ?lnk)"
  let ?fq = "for_query d (relate_body i (rel_id ?lnk) (phrase ?lnk)) m (to_metaclass ?lnk) ?kwargs"
  have fq: "cache_since n c (fst ?fq)"
    by (rule cache_since_for_query [OF cache_since_relate_body Cons.prems])
  obtain m1 r where e: "?fq = (m1, r)" by (cases ?fq)
  with fq have m1: "cache_since n c m1" by simp
  show ?case
  proof (cases r)
    case None
    with Cons.IH [OF m1] Cons.IH [OF Cons.prems] e show ?thesis by (simp add: Let_def)
  next
    case (Some err)
    with m1 Cons.IH [OF Cons.prems] e show ?thesis by (simp add: Let_def)
  qed
qed

lemma cache_since_new: "cache_since (n_queries m) self (fst (new d m self args kwargs))"
proof -
  let ?n = "n_queries m" and ?i = "n_insts m" and ?me = "mc_heap m self"
  let ?m0 = "m\<lparr>mc_heap := (mc_heap m)
                 (self := ?me\<lparr>cache := Map.empty, storage := storage ?me @ [?i]\<rparr>),
               inst_class := (inst_class m)(?i := self),
               inst_dict := (inst_dict m)(?i := Map.empty),
               n_insts := Suc ?i\<rparr>"
  have m0: "cache_since ?n self ?m0" by (simp add: cache_since_def)
  obtain m1 r1 where d1: "new_defaults ?m0 self ?i (attributes ?me) = (m1, r1)"
    by (cases "new_defaults ?m0 self ?i (attributes ?me)")
  with cache_since_new_defaults [OF m0, of self ?i "attributes ?me"]
  have m1: "cache_since ?n self m1" by simp
  obtain m2 refs2 where a2: "new_assign m1 self ?i (zip (map fst (attributes ?me)) args) [] = (m2, refs2)"
    by (cases "new_assign m1 self ?i (zip (map fst (attributes ?me)) args) []")
  with cache_since_new_assign [OF m1, of self ?i "zip (map fst (attributes ?me)) args" "[]"]
  have m2: "cache_since ?n self m2" by simp
  obtain m3 refs where a3: "new_assign m2 self ?i kwargs refs2 = (m3, refs)"
    by (cases "new_assign m2 self ?i kwargs refs2")
  with cache_since_new_assign [OF m2, of self ?i kwargs refs2]
  have m3: "cache_since ?n self m3" by simp
  obtain m4 r4 where b4: "new_batch_relate d m3 ?i refs (map snd (links (mc_heap m3 self))) = (m4, r4)"
    by (cases "new_batch_relate d m3 ?i refs (map snd (links (mc_heap m3 self)))")
  with cache_since_new_batch_relate [OF m3, of d ?i refs "map snd (links (mc_heap m3 self))"]
  have m4: "cache_since ?n self m4" by simp
  show ?thesis
  proof (cases r1)
    case (Some e)
    with m1 d1 show ?thesis by (simp add: new_def Let_def)
  next
    case None
    note r1 = this
    show ?thesis
    proof (cases "refs = []")
      case True
      with m3 d1 r1 a2 a3 show ?thesis by (simp add: new_def Let_def)
    next
      case False
      show ?thesis
      proof (cases r4)
        case (Some e)
        with m4 d1 r1 a2 a3 b4 False show ?thesis by (simp add: new_def Let_def)
      next
        case None
        with m4 d1 r1 a2 a3 b4 False show ?thesis
          by (simp add: new_def Let_def split: option.splits)
      qed
    qed
  qed
qed

subsection \<open>Evaluation of the examples\<close>

lemma upper_char_simps [simp]:
  "upper_char CHR ''a'' = CHR ''A''"
  "upper_char CHR ''b'' = CHR ''B''"
  "upper_char CHR ''c'' = CHR ''C''"
  "upper_char CHR ''d'' = CHR ''D''"
  "upper_char CHR ''e'' = CHR ''E''"
  "upper_char CHR ''f'' = CHR ''F''"
  "upper_char CHR ''g'' = CHR ''G''"
  "upper_char CHR ''h'' = CHR ''H''"
  "upper_char CHR ''i'' = CHR ''I''"
  "upper_char CHR ''j'' = CHR ''J''"
  "upper_char CHR ''k'' = CHR ''K''"
  "upper_char CHR ''l'' = CHR ''L''"
  "upper_char CHR ''m'' = CHR ''M''"
  "upper_char CHR ''n'' = CHR ''N''"
  "upper_char CHR ''o'' = CHR ''O''"
  "upper_char CHR ''p'' = CHR ''P''"
  "upper_char CHR ''q'' = CHR ''Q''"
  "upper_char CHR ''r'' = CHR ''R''"
  "upper_char CHR ''s'' = CHR ''S''"
  "upper_char CHR ''t'' = CHR ''T''"
  "upper_char CHR ''u'' = CHR ''U''"
  "upper_char CHR ''v'' = CHR ''V''"
  "upper_char CHR ''w'' = CHR ''W''"
  "upper_char CHR ''x'' = CHR ''X''"
  "upper_char CHR ''y'' = CHR ''Y''"
  "upper_char CHR ''z'' = CHR ''Z''"
  "upper_char CHR ''A'' = CHR ''A''"
  "upper_char CHR ''B'' = CHR ''B''"
  "upper_char CHR ''C'' = CHR ''C''"
  "upper_char CHR ''D'' = CHR ''D''"
  "upper_char CHR ''E'' = CHR ''E''"
  "upper_char CHR ''F'' = CHR ''F''"
  "upper_char CHR ''G'' = CHR ''G''"
  "upper_char CHR ''H'' = CHR ''H''"
  "upper_char CHR ''I'' = CHR ''I''"
  "upper_char CHR ''J'' = CHR ''J''"
  "upper_char CHR ''K'' = CHR ''K''"
  "upper_char CHR ''L'' = CHR ''L''"
  "upper_char CHR ''M'' = CHR ''M''"
  "upper_char CHR ''N'' = CHR ''N''"
  "upper_char CHR ''O'' = CHR ''O''"
  "upper_char CHR ''P'' = CHR ''P''"
  "upper_char CHR ''Q'' = CHR ''Q''"
  "upper_char CHR ''R'' = CHR ''R''"
  "upper_char CHR ''S'' = CHR ''S''"
  "upper_char CHR ''T'' = CHR ''T''"
  "upper_char CHR ''U'' = CHR ''U''"
  "upper_char CHR ''V'' = CHR ''V''"
  "upper_char CHR ''W'' = CHR ''W''"
  "upper_char CHR ''X'' = CHR ''X''"
  "upper_char CHR ''Y'' = CHR ''Y''"
  "upper_char CHR ''Z'' = CHR ''Z''"
  "upper_char CHR ''0'' = CHR ''0''"
  "upper_char CHR ''1'' = CHR ''1''"
  "upper_char CHR ''2'' = CHR ''2''"
  "upper_char CHR ''3'' = CHR ''3''"
  "upper_char CHR ''4'' = CHR ''4''"
  "upper_char CHR ''5'' = CHR ''5''"
  "upper_char CHR ''6'' = CHR ''6''"
  "upper_char CHR ''7'' = CHR ''7''"
  "upper_char CHR ''8'' = CHR ''8''"
  "upper_char CHR ''9'' = CHR ''9''"
  "upper_char CHR ''_'' = CHR ''_''"
  by code_simp+

lemma upper_Nil [simp]: "upper [] = []"
  and upper_Cons [simp]: "upper (c # s) = upper_char c # upper s"
  by (simp_all add: upper_def)

lemma norm_rel_id_RStr [simp]: "norm_rel_id (RStr s) = s"
  by (simp add: norm_rel_id_def)

lemma norm_rel_id_1 [simp]: "norm_rel_id (RInt 1) = ''R1''"
  by code_simp

lemmas eval_defs = relate_def unrelate_def find_link_between_def link_connect_def
  link_disconnect_def connect_def disconnect_def navigate_def Let_def ex_R1_def

lemma ex_classes_eq:
  "ex_classes =
   \<lparr>metaclasses = [(''PERSON'', 0), (''DOG'', Suc 0)], associations = [],
      id_generator = 1,
      mc_heap =
        (\<lambda>_. \<lparr>kind = [], attributes = [], referential_attributes = {},
                identifying_attributes = {}, indices = [], links = [],
                props = [], storage = [], cache = \<lambda>x. None\<rparr>)
        (0 := \<lparr>kind = ''Person'',
                 attributes =
                   [(''id'', ''UNIQUE_ID''), (''name'', ''STRING'')],
                 referential_attributes = {}, identifying_attributes = {},
                 indices = [], links = [], props = [], storage = [],
                 cache = \<lambda>x. None\<rparr>,
           Suc 0 :=
             \<lparr>kind = ''Dog'',
                attributes =
                  [(''name'', ''STRING''), (''owner_id'', ''UNIQUE_ID'')],
                referential_attributes = {}, identifying_attributes = {},
                indices = [], links = [], props = [], storage = [],
                cache = \<lambda>x. None\<rparr>),
      link_heap =
        \<lambda>_. \<lparr>from_metaclass = 0, rel_id = [], to_metaclass = 0, phrase = [],
               key_map = [], conditional = False, many = False,
               neighbors = \<lambda>x. None\<rparr>,
      inst_class = \<lambda>_. 0, inst_dict = \<lambda>_ x. None, n_metaclasses = Suc (Suc 0),
      n_links = 0, n_insts = 0, n_queries = 0, set_iter = sorted_list_of_set\<rparr>"
  by (simp add: ex_classes_def define_class_def MetaModel_init_def Let_def Link_init_def)

lemma ex_schema_eq:
  "ex_schema =
   \<lparr>metaclasses = [(''PERSON'', 0), (''DOG'', Suc 0)],
      associations =
        [\<lparr>a_rel_id = ''R1'', source_keys = [''owner_id''], source_link = 0,
            target_keys = [''id''], target_link = Suc 0\<rparr>],
      id_generator = 1,
      mc_heap =
        (\<lambda>_. \<lparr>kind = [], attributes = [], referential_attributes = {},
                identifying_attributes = {}, indices = [], links = [],
                props = [], storage = [], cache = \<lambda>x. None\<rparr>)
        (0 := \<lparr>kind = ''Person'',
                 attributes =
                   [(''id'', ''UNIQUE_ID''), (''name'', ''STRING'')],
                 referential_attributes = {}, identifying_attributes = {},
                 indices = [], links = [((''DOG'', RStr ''R1'', []), 0)],
                 props = [], storage = [], cache = \<lambda>x. None\<rparr>,
           Suc 0 :=
             \<lparr>kind = ''Dog'',
                attributes =
                  [(''name'', ''STRING''), (''owner_id'', ''UNIQUE_ID'')],
                referential_attributes = {}, identifying_attributes = {},
                indices = [], links = [((''PERSON'', RStr ''R1'', []), Suc 0)],
                props = [], storage = [], cache = \<lambda>x. None\<rparr>),
      link_heap =
        (\<lambda>_. \<lparr>from_metaclass = 0, rel_id = [], to_metaclass = 0, phrase = [],
                key_map = [], conditional = False, many = False,
                neighbors = \<lambda>x. None\<rparr>)
        (0 := \<lparr>from_metaclass = 0, rel_id = ''R1'', to_metaclass = Suc 0,
                 phrase = [], key_map = [], conditional = True, many = False,
                 neighbors = \<lambda>x. None\<rparr>,
           Suc 0 :=
             \<lparr>from_metaclass = Suc 0, rel_id = ''R1'', to_metaclass = 0,
                phrase = [], key_map = [], conditional = False, many = False,
                neighbors = \<lambda>x. None\<rparr>),
      inst_class = \<lambda>_. 0, inst_dict = \<lambda>_ x. None, n_metaclasses = Suc (Suc 0),
      n_links = Suc (Suc 0), n_insts = 0, n_queries = 0,
      set_iter = sorted_list_of_set\<rparr>"
  by (simp add: ex_schema_def ex_classes_eq define_association_def find_metaclass_def add_link_def Let_def Link_init_def)

lemma ex_pop_eq:
  "ex_pop =
   \<lparr>metaclasses = [(''PERSON'', 0), (''DOG'', Suc 0)],
      associations =
        [\<lparr>a_rel_id = ''R1'', source_keys = [''owner_id''], source_link = 0,
            target_keys = [''id''], target_link = Suc 0\<rparr>],
      id_generator = 4,
      mc_heap =
        (\<lambda>_. \<lparr>kind = [], attributes = [], referential_attributes = {},
                identifying_attributes = {}, indices = [], links = [],
                props = [], storage = [], cache = \<lambda>x. None\<rparr>)
        (Suc 0 :=
           \<lparr>kind = ''Dog'',
              attributes =
                [(''name'', ''STRING''), (''owner_id'', ''UNIQUE_ID'')],
              referential_attributes = {}, identifying_attributes = {},
              indices = [], links = [((''PERSON'', RStr ''R1'', []), Suc 0)],
              props = [], storage = [Suc 0], cache = \<lambda>x. None\<rparr>,
           0 := \<lparr>kind = ''Person'',
                   attributes =
                     [(''id'', ''UNIQUE_ID''), (''name'', ''STRING'')],
                   referential_attributes = {}, identifying_attributes = {},
                   indices = [], links = [((''DOG'', RStr ''R1'', []), 0)],
                   props = [], storage = [0, Suc (Suc 0)], cache = \<lambda>x. None\<rparr>),
      link_heap =
        (\<lambda>_. \<lparr>from_metaclass = 0, rel_id = [], to_metaclass = 0, phrase = [],
                key_map = [], conditional = False, many = False,
                neighbors = \<lambda>x. None\<rparr>)
        (0 := \<lparr>from_metaclass = 0, rel_id = ''R1'', to_metaclass = Suc 0,
                 phrase = [], key_map = [], conditional = True, many = False,
                 neighbors = \<lambda>x. None\<rparr>,
           Suc 0 :=
             \<lparr>from_metaclass = Suc 0, rel_id = ''R1'', to_metaclass = 0,
                phrase = [], key_map = [], conditional = False, many = False,
                neighbors = \<lambda>x. None\<rparr>),
      inst_class = (\<lambda>_. 0)(0 := 0, Suc 0 := Suc 0, Suc (Suc 0) := 0),
      inst_dict =
        (\<lambda>_ x. None)
        (0 := [''id'' \<mapsto> VInt 42, ''name'' \<mapsto> VStr ''A''],
           Suc 0 := [''owner_id'' \<mapsto> VInt 2, ''name'' \<mapsto> VStr ''Rex''],
           Suc (Suc 0) := [''id'' \<mapsto> VInt 43, ''name'' \<mapsto> VStr ''B'']),
      n_metaclasses = Suc (Suc 0), n_links = Suc (Suc 0),
      n_insts = Suc (Suc (Suc 0)), n_queries = 0,
      set_iter = sorted_list_of_set\<rparr>"
  by (simp add: ex_pop_def ex_schema_eq new_def Let_def setattr_def default_value_def)

lemma ex_related_eq:
  "ex_related =
   \<lparr>metaclasses = [(''PERSON'', 0), (''DOG'', Suc 0)],
      associations =
        [\<lparr>a_rel_id = ''R1'', source_keys = [''owner_id''], source_link = 0,
            target_keys = [''id''], target_link = Suc 0\<rparr>],
      id_generator = 4,
      mc_heap =
        (\<lambda>_. \<lparr>kind = [], attributes = [], referential_attributes = {},
                identifying_attributes = {}, indices = [], links = [],
                props = [], storage = [], cache = \<lambda>x. None\<rparr>)
        (Suc 0 :=
           \<lparr>kind = ''Dog'',
              attributes =
                [(''name'', ''STRING''), (''owner_id'', ''UNIQUE_ID'')],
              referential_attributes = {}, identifying_attributes = {},
              indices = [], links = [((''PERSON'', RStr ''R1'', []), Suc 0)],
              props = [], storage = [Suc 0], cache = \<lambda>x. None\<rparr>,
           0 := \<lparr>kind = ''Person'',
                   attributes =
                     [(''id'', ''UNIQUE_ID''), (''name'', ''STRING'')],
                   referential_attributes = {}, identifying_attributes = {},
                   indices = [], links = [((''DOG'', RStr ''R1'', []), 0)],
                   props = [], storage = [0, Suc (Suc 0)], cache = \<lambda>x. None\<rparr>),
      link_heap =
        (\<lambda>_. \<lparr>from_metaclass = 0, rel_id = [], to_metaclass = 0, phrase = [],
                key_map = [], conditional = False, many = False,
                neighbors = \<lambda>x. None\<rparr>)
        (0 := \<lparr>from_metaclass = 0, rel_id = ''R1'', to_metaclass = Suc 0,
                 phrase = [], key_map = [], conditional = True, many = False,
                 neighbors = [0 \<mapsto> {Suc 0}]\<rparr>,
           Suc 0 :=
             \<lparr>from_metaclass = Suc 0, rel_id = ''R1'', to_metaclass = 0,
                phrase = [], key_map = [], conditional = False, many = False,
                neighbors = [Suc 0 \<mapsto> {0}]\<rparr>),
      inst_class = (\<lambda>_. 0)(0 := 0, Suc 0 := Suc 0, Suc (Suc 0) := 0),
      inst_dict =
        (\<lambda>_ x. None)
        (0 := [''id'' \<mapsto> VInt 42, ''name'' \<mapsto> VStr ''A''],
           Suc 0 := [''owner_id'' \<mapsto> VInt 2, ''name'' \<mapsto> VStr ''Rex''],
           Suc (Suc 0) := [''id'' \<mapsto> VInt 43, ''name'' \<mapsto> VStr ''B'']),
      n_metaclasses = Suc (Suc 0), n_links = Suc (Suc 0),
      n_insts = Suc (Suc (Suc 0)), n_queries = 0,
      set_iter = sorted_list_of_set\<rparr>"
  by (simp add: ex_related_def ex_pop_eq ex_R1_def relate_def find_link_between_def link_connect_def connect_def Let_def)

lemma ex_dup_eq:
  "ex_dup =
   \<lparr>metaclasses = [(''PERSON'', 0), (''DOG'', Suc 0)],
      associations =
        [\<lparr>a_rel_id = ''R1'', source_keys = [''owner_id''], source_link = 0,
            target_keys = [''id''], target_link = Suc 0\<rparr>],
      id_generator = 4,
      mc_heap =
        (\<lambda>_. \<lparr>kind = [], attributes = [], referential_attributes = {},
                identifying_attributes = {}, indices = [], links = [],
                props = [], storage = [], cache = \<lambda>x. None\<rparr>)
        (Suc 0 :=
           \<lparr>kind = ''Dog'',
              attributes =
                [(''name'', ''STRING''), (''owner_id'', ''UNIQUE_ID'')],
              referential_attributes = {}, identifying_attributes = {},
              indices = [], links = [((''PERSON'', RStr ''R1'', []), Suc 0)],
              props = [], storage = [Suc 0], cache = \<lambda>x. None\<rparr>,
           0 := \<lparr>kind = ''Person'',
                   attributes =
                     [(''id'', ''UNIQUE_ID''), (''name'', ''STRING'')],
                   referential_attributes = {}, identifying_attributes = {},
                   indices = [], links = [((''DOG'', RStr ''R1'', []), 0)],
                   props = [], storage = [0, Suc (Suc 0)],
                   cache =
                     [{(''id'', VReal 42)} \<mapsto>
                      \<lparr>q_id = 0, q_storage = [0, Suc (Suc 0)],
                         q_items = [(''id'', VInt 42)],
                         q_result = [0, Suc (Suc 0)], q_evaluation = None\<rparr>]\<rparr>),
      link_heap =
        (\<lambda>_. \<lparr>from_metaclass = 0, rel_id = [], to_metaclass = 0, phrase = [],
                key_map = [], conditional = False, many = False,
                neighbors = \<lambda>x. None\<rparr>)
        (0 := \<lparr>from_metaclass = 0, rel_id = ''R1'', to_metaclass = Suc 0,
                 phrase = [], key_map = [], conditional = True, many = False,
                 neighbors = [0 \<mapsto> {Suc 0}, Suc (Suc 0) \<mapsto> {Suc 0}]\<rparr>,
           Suc 0 :=
             \<lparr>from_metaclass = Suc 0, rel_id = ''R1'', to_metaclass = 0,
                phrase = [], key_map = [], conditional = False, many = False,
                neighbors = [Suc 0 \<mapsto> {Suc (Suc 0), 0}]\<rparr>),
      inst_class = (\<lambda>_. 0)(0 := 0, Suc 0 := Suc 0, Suc (Suc 0) := 0),
      inst_dict =
        (\<lambda>_ x. None)
        (0 := [''id'' \<mapsto> VInt 42, ''name'' \<mapsto> VStr ''A''],
           Suc 0 := [''name'' \<mapsto> VStr ''Rex'', ''owner_id'' \<mapsto> VInt 42],
           Suc (Suc 0) := [''id'' \<mapsto> VInt 42, ''name'' \<mapsto> VStr ''B'']),
      n_metaclasses = Suc (Suc 0), n_links = Suc (Suc 0),
      n_insts = Suc (Suc (Suc 0)), n_queries = Suc 0,
      set_iter = sorted_list_of_set\<rparr>"
  by (simp add: ex_dup_def ex_schema_eq ex_R1_def new_def Let_def setattr_def default_value_def batch_relate_def for_query_def mc_query_def frozen_def canon_def num_of_def put_query_def Query_init_def batch_body_def is_null_def py_eq_def truthy_def link_connect_def connect_def)

lemma ex_formal_eq:
  "ex_formal =
   \<lparr>metaclasses = [(''PERSON'', 0), (''DOG'', Suc 0)],
      associations =
        [\<lparr>a_rel_id = ''R1'', source_keys = [''owner_id''], source_link = 0,
            target_keys = [''id''], target_link = Suc 0\<rparr>],
      id_generator = 1,
      mc_heap =
        (\<lambda>_. \<lparr>kind = [], attributes = [], referential_attributes = {},
                identifying_attributes = {}, indices = [], links = [],
                props = [], storage = [], cache = \<lambda>x. None\<rparr>)
        (0 := \<lparr>kind = ''Person'',
                 attributes =
                   [(''id'', ''UNIQUE_ID''), (''name'', ''STRING'')],
                 referential_attributes = {},
                 identifying_attributes = {''id''}, indices = [],
                 links = [((''DOG'', RStr ''R1'', []), 0)], props = [],
                 storage = [], cache = \<lambda>x. None\<rparr>,
           Suc 0 :=
             \<lparr>kind = ''Dog'',
                attributes =
                  [(''name'', ''STRING''), (''owner_id'', ''UNIQUE_ID'')],
                referential_attributes = {''owner_id''},
                identifying_attributes = {}, indices = [],
                links = [((''PERSON'', RStr ''R1'', []), Suc 0)],
                props = [(''owner_id'', Suc 0, ''id'')], storage = [],
                cache = \<lambda>x. None\<rparr>),
      link_heap =
        (\<lambda>_. \<lparr>from_metaclass = 0, rel_id = [], to_metaclass = 0, phrase = [],
                key_map = [], conditional = False, many = False,
                neighbors = \<lambda>x. None\<rparr>)
        (0 := \<lparr>from_metaclass = 0, rel_id = ''R1'', to_metaclass = Suc 0,
                 phrase = [], key_map = [(''owner_id'', ''id'')],
                 conditional = True, many = False, neighbors = \<lambda>x. None\<rparr>,
           Suc 0 :=
             \<lparr>from_metaclass = Suc 0, rel_id = ''R1'', to_metaclass = 0,
                phrase = [], key_map = [(''id'', ''owner_id'')],
                conditional = False, many = False, neighbors = \<lambda>x. None\<rparr>),
      inst_class = \<lambda>_. 0, inst_dict = \<lambda>_ x. None, n_metaclasses = Suc (Suc 0),
      n_links = Suc (Suc 0), n_insts = 0, n_queries = 0,
      set_iter = sorted_list_of_set\<rparr>"
  by (simp add: ex_formal_def ex_schema_eq ex_R1_def formalize_def dict_zip_def Let_def)

lemma ex_fpop_eq:
  "ex_fpop =
   \<lparr>metaclasses = [(''PERSON'', 0), (''DOG'', Suc 0)],
      associations =
        [\<lparr>a_rel_id = ''R1'', source_keys = [''owner_id''], source_link = 0,
            target_keys = [''id''], target_link = Suc 0\<rparr>],
      id_generator = 2,
      mc_heap =
        (\<lambda>_. \<lparr>kind = [], attributes = [], referential_attributes = {},
                identifying_attributes = {}, indices = [], links = [],
                props = [], storage = [], cache = \<lambda>x. None\<rparr>)
        (0 := \<lparr>kind = ''Person'',
                 attributes =
                   [(''id'', ''UNIQUE_ID''), (''name'', ''STRING'')],
                 referential_attributes = {},
                 identifying_attributes = {''id''}, indices = [],
                 links = [((''DOG'', RStr ''R1'', []), 0)], props = [],
                 storage = [0], cache = \<lambda>x. None\<rparr>,
           Suc 0 :=
             \<lparr>kind = ''Dog'',
                attributes =
                  [(''name'', ''STRING''), (''owner_id'', ''UNIQUE_ID'')],
                referential_attributes = {''owner_id''},
                identifying_attributes = {}, indices = [],
                links = [((''PERSON'', RStr ''R1'', []), Suc 0)],
                props = [(''owner_id'', Suc 0, ''id'')], storage = [Suc 0],
                cache = \<lambda>x. None\<rparr>),
      link_heap =
        (\<lambda>_. \<lparr>from_metaclass = 0, rel_id = [], to_metaclass = 0, phrase = [],
                key_map = [], conditional = False, many = False,
                neighbors = \<lambda>x. None\<rparr>)
        (0 := \<lparr>from_metaclass = 0, rel_id = ''R1'', to_metaclass = Suc 0,
                 phrase = [], key_map = [(''owner_id'', ''id'')],
                 conditional = True, many = False, neighbors = \<lambda>x. None\<rparr>,
           Suc 0 :=
             \<lparr>from_metaclass = Suc 0, rel_id = ''R1'', to_metaclass = 0,
                phrase = [], key_map = [(''id'', ''owner_id'')],
                conditional = False, many = False, neighbors = \<lambda>x. None\<rparr>),
      inst_class = (\<lambda>_. 0)(0 := 0, Suc 0 := Suc 0),
      inst_dict =
        (\<lambda>_ x. None)
        (0 := [''id'' \<mapsto> VInt 42, ''name'' \<mapsto> VStr ''A''],
           Suc 0 := [''name'' \<mapsto> VStr ''Rex'']),
      n_metaclasses = Suc (Suc 0), n_links = Suc (Suc 0),
      n_insts = Suc (Suc 0), n_queries = 0, set_iter = sorted_list_of_set\<rparr>"
  by (simp add: ex_fpop_def ex_formal_eq new_def Let_def setattr_def default_value_def)

lemma ex_frelated_eq:
  "ex_frelated =
   \<lparr>metaclasses = [(''PERSON'', 0), (''DOG'', Suc 0)],
      associations =
        [\<lparr>a_rel_id = ''R1'', source_keys = [''owner_id''], source_link = 0,
            target_keys = [''id''], target_link = Suc 0\<rparr>],
      id_generator = 2,
      mc_heap =
        (\<lambda>_. \<lparr>kind = [], attributes = [], referential_attributes = {},
                identifying_attributes = {}, indices = [], links = [],
                props = [], storage = [], cache = \<lambda>x. None\<rparr>)
        (0 := \<lparr>kind = ''Person'',
                 attributes =
                   [(''id'', ''UNIQUE_ID''), (''name'', ''STRING'')],
                 referential_attributes = {},
                 identifying_attributes = {''id''}, indices = [],
                 links = [((''DOG'', RStr ''R1'', []), 0)], props = [],
                 storage = [0], cache = \<lambda>x. None\<rparr>,
           Suc 0 :=
             \<lparr>kind = ''Dog'',
                attributes =
                  [(''name'', ''STRING''), (''owner_id'', ''UNIQUE_ID'')],
                referential_attributes = {''owner_id''},
                identifying_attributes = {}, indices = [],
                links = [((''PERSON'', RStr ''R1'', []), Suc 0)],
                props = [(''owner_id'', Suc 0, ''id'')], storage = [Suc 0],
                cache = \<lambda>x. None\<rparr>),
      link_heap =
        (\<lambda>_. \<lparr>from_metaclass = 0, rel_id = [], to_metaclass = 0, phrase = [],
                key_map = [], conditional = False, many = False,
                neighbors = \<lambda>x. None\<rparr>)
        (0 := \<lparr>from_metaclass = 0, rel_id = ''R1'', to_metaclass = Suc 0,
                 phrase = [], key_map = [(''owner_id'', ''id'')],
                 conditional = True, many = False, neighbors = [0 \<mapsto> {Suc 0}]\<rparr>,
           Suc 0 :=
             \<lparr>from_metaclass = Suc 0, rel_id = ''R1'', to_metaclass = 0,
                phrase = [], key_map = [(''id'', ''owner_id'')],
                conditional = False, many = False, neighbors = [Suc 0 \<mapsto> {0}]\<rparr>),
      inst_class = (\<lambda>_. 0)(0 := 0, Suc 0 := Suc 0),
      inst_dict =
        (\<lambda>_ x. None)
        (0 := [''id'' \<mapsto> VInt 42, ''name'' \<mapsto> VStr ''A''],
           Suc 0 := [''name'' \<mapsto> VStr ''Rex'']),
      n_metaclasses = Suc (Suc 0), n_links = Suc (Suc 0),
      n_insts = Suc (Suc 0), n_queries = 0, set_iter = sorted_list_of_set\<rparr>"
  by (simp add: ex_frelated_def ex_fpop_eq eval_defs)

lemma ex_funrelated_eq:
  "ex_funrelated =
   \<lparr>metaclasses = [(''PERSON'', 0), (''DOG'', Suc 0)],
      associations =
        [\<lparr>a_rel_id = ''R1'', source_keys = [''owner_id''], source_link = 0,
            target_keys = [''id''], target_link = Suc 0\<rparr>],
      id_generator = 2,
      mc_heap =
        (\<lambda>_. \<lparr>kind = [], attributes = [], referential_attributes = {},
                identifying_attributes = {}, indices = [], links = [],
                props = [], storage = [], cache = \<lambda>x. None\<rparr>)
        (0 := \<lparr>kind = ''Person'',
                 attributes =
                   [(''id'', ''UNIQUE_ID''), (''name'', ''STRING'')],
                 referential_attributes = {},
                 identifying_attributes = {''id''}, indices = [],
                 links = [((''DOG'', RStr ''R1'', []), 0)], props = [],
                 storage = [0], cache = \<lambda>x. None\<rparr>,
           Suc 0 :=
             \<lparr>kind = ''Dog'',
                attributes =
                  [(''name'', ''STRING''), (''owner_id'', ''UNIQUE_ID'')],
                referential_attributes = {''owner_id''},
                identifying_attributes = {}, indices = [],
                links = [((''PERSON'', RStr ''R1'', []), Suc 0)],
                props = [(''owner_id'', Suc 0, ''id'')], storage = [Suc 0],
                cache = \<lambda>x. None\<rparr>),
      link_heap =
        (\<lambda>_. \<lparr>from_metaclass = 0, rel_id = [], to_metaclass = 0, phrase = [],
                key_map = [], conditional = False, many = False,
                neighbors = \<lambda>x. None\<rparr>)
        (0 := \<lparr>from_metaclass = 0, rel_id = ''R1'', to_metaclass = Suc 0,
                 phrase = [], key_map = [(''owner_id'', ''id'')],
                 conditional = True, many = False, neighbors = [0 \<mapsto> {}]\<rparr>,
           Suc 0 :=
             \<lparr>from_metaclass = Suc 0, rel_id = ''R1'', to_metaclass = 0,
                phrase = [], key_map = [(''id'', ''owner_id'')],
                conditional = False, many = False, neighbors = [Suc 0 \<mapsto> {}]\<rparr>),
      inst_class = (\<lambda>_. 0)(0 := 0, Suc 0 := Suc 0),
      inst_dict =
        (\<lambda>_ x. None)
        (0 := [''id'' \<mapsto> VInt 42, ''name'' \<mapsto> VStr ''A''],
           Suc 0 := [''name'' \<mapsto> VStr ''Rex'']),
      n_metaclasses = Suc (Suc 0), n_links = Suc (Suc 0),
      n_insts = Suc (Suc 0), n_queries = 0, set_iter = sorted_list_of_set\<rparr>"
  by (simp add: ex_funrelated_def ex_frelated_eq eval_defs)

text \<open>
  C2. When \<^verbatim>\<open>relate(a, b, R, p)\<close> has returned true, a second call with the same
  arguments returns true as well, raises nothing and leaves the whole metamodel, and so
  every link, as it is.
\<close>

theorem relate_twice_noop:
  assumes "relate m (Some a) (Some b) r p = (m1, Inr True)"
  shows "relate m1 (Some a) (Some b) r p = (m1, Inr True)"
proof -
  from relate_success [OF assms] obtain i1 i2 ass where
    f: "find_link_between m a b r p = Inr (i1, i2, ass)" and
    m1: "m1 = fst (link_connect (fst (link_connect m (source_link ass) i1 i2 True))
                      (target_link ass) i2 i1 True)" and
    ok1: "snd (link_connect m (source_link ass) i1 i2 True)" and
    ok2: "snd (link_connect (fst (link_connect m (source_link ass) i1 i2 True))
                      (target_link ass) i2 i1 True)"
    by blast
  have f1: "find_link_between m1 a b r p = Inr (i1, i2, ass)"
    by (simp add: m1 find_link_between_connect f)
  have e1: "i2 \<in> navigate (link_heap m1 (source_link ass)) i1"
    using ok1 ok2 by (simp add: m1 navigate_link_connect)
  have e2: "i1 \<in> navigate (link_heap m1 (target_link ass)) i2"
    using ok2 by (simp add: m1 navigate_link_connect)
  show ?thesis by (rule relate_related [OF f1 e1 e2])
qed

lemma ex_relate_ok: "relate ex_pop (Some 1) (Some 0) (RInt 1) [] = (ex_related, Inr True)"
proof -
  have "snd (relate ex_pop (Some 1) (Some 0) (RInt 1) []) = Inr True"
    by (simp add: ex_pop_eq eval_defs)
  then show ?thesis by (simp add: ex_related_def prod_eq_iff)
qed

theorem relate_twice_noop_witness:
  "relate ex_pop (Some 1) (Some 0) (RInt 1) [] = (ex_related, Inr True) \<and>
   relate ex_related (Some 1) (Some 0) (RInt 1) [] = (ex_related, Inr True)"
  using relate_twice_noop [OF ex_relate_ok] ex_relate_ok by simp

text \<open>
  C1, as amended. Let \<^verbatim>\<open>relate(a, b1, R, p)\<close> have returned true, let \<open>b2\<close> be another
  instance of the class of \<open>b1\<close>, and let every link of the association that
  \<^verbatim>\<open>relate\<close> connects at \<open>a\<close> have \<open>many\<close> false and not hold \<open>b2\<close> as a neighbour
  of \<open>a\<close> already. Then \<^verbatim>\<open>relate(a, b2, R, p)\<close> raises \<^verbatim>\<open>RelateException\<close>. And
  \<^verbatim>\<open>Link.connect\<close> with \<open>check\<close> true returns false on a link that is not many for an
  instance that has a neighbour, unless the instance to connect is a neighbour already.
\<close>

theorem relate_second_target_rejected:
  assumes first: "relate m (Some a) (Some b1) r p = (m1, Inr True)"
    and f: "find_link_between m a b1 r p = Inr (i1, i2, ass)"
    and cls: "inst_class m b2 = inst_class m b1"
    and links: "source_link ass \<noteq> target_link ass"
    and ne: "b1 \<noteq> b2"
    and src: "i1 = a \<Longrightarrow> \<not> many (link_heap m (source_link ass)) \<and>
                b2 \<notin> navigate (link_heap m (source_link ass)) a"
    and tgt: "i2 = a \<Longrightarrow> \<not> many (link_heap m (target_link ass)) \<and>
                b2 \<notin> navigate (link_heap m (target_link ass)) a"
  shows "snd (relate m1 (Some a) (Some b2) r p) = Inl RelateException \<and>
         (\<forall>l x y. \<not> many l \<and> navigate l x \<noteq> {} \<and> y \<notin> navigate l x
            \<longrightarrow> \<not> snd (connect l x y True))"
proof
  let ?sl = "source_link ass" and ?tl = "target_link ass"
  from relate_success [OF first] f have
    m1: "m1 = fst (link_connect (fst (link_connect m ?sl i1 i2 True)) ?tl i2 i1 True)" and
    ok1: "snd (link_connect m ?sl i1 i2 True)" and
    ok2: "snd (link_connect (fst (link_connect m ?sl i1 i2 True)) ?tl i2 i1 True)"
    by auto
  have nav_sl: "navigate (link_heap m1 ?sl) x =
      (if x = i1 then insert i2 (navigate (link_heap m ?sl) i1) else navigate (link_heap m ?sl) x)"
    for x using ok1 links by (simp add: m1 navigate_link_connect)
  have nav_tl: "navigate (link_heap m1 ?tl) x =
      (if x = i2 then insert i1 (navigate (link_heap m ?tl) i2) else navigate (link_heap m ?tl) x)"
    for x using ok2 links by (simp add: m1 navigate_link_connect)
  have many1: "many (link_heap m1 l) = many (link_heap m l)" for l
    by (simp add: m1)
  have fb: "find_link_between m1 a b2 r p = find_link_between m a b2 r p"
    by (simp add: m1 find_link_between_connect)
  from f have fa: "find_ass m (associations m) (inst_class m a) (inst_class m b1) a b1
                     (norm_rel_id r) p = Inr (i1, i2, ass)"
    by (simp add: find_link_between_def)
  from find_ass_shape [OF fa, of a b2]
  consider (same) "i1 = a" "i2 = b1" "find_link_between m a b2 r p = Inr (a, b2, ass)"
    | (swapped) "i1 = b1" "i2 = a" "find_link_between m a b2 r p = Inr (b2, a, ass)"
    by (auto simp: find_link_between_def cls)
  then show "snd (relate m1 (Some a) (Some b2) r p) = Inl RelateException"
  proof cases
    case same
    from src [OF same(1)] ne same have "\<not> snd (link_connect m1 ?sl a b2 True)"
      by (simp add: link_connect_result nav_sl many1)
    then show ?thesis
      by (simp add: relate_def fb same(3) split_beta)
  next
    case swapped
    let ?m2 = "fst (link_connect m1 ?sl b2 a True)"
    from tgt [OF swapped(2)] ne swapped links have "\<not> snd (link_connect ?m2 ?tl a b2 True)"
      by (simp add: link_connect_result navigate_link_connect nav_tl many1)
    then show ?thesis
      by (simp add: relate_def fb swapped(3) split_beta)
  qed
next
  show "\<forall>l x y. \<not> many l \<and> navigate l x \<noteq> {} \<and> y \<notin> navigate l x \<longrightarrow> \<not> snd (connect l x y True)"
    by (simp add: connect_result)
qed

theorem relate_second_target_rejected_witness:
  "relate ex_pop (Some 1) (Some 0) (RInt 1) [] = (ex_related, Inr True) \<and>
   find_link_between ex_pop 1 0 (RInt 1) [] = Inr (0, 1, ex_R1) \<and>
   inst_class ex_pop 2 = inst_class ex_pop 0 \<and>
   \<not> many (link_heap ex_pop (target_link ex_R1)) \<and>
   2 \<notin> navigate (link_heap ex_pop (target_link ex_R1)) 1 \<and>
   snd (relate ex_related (Some 1) (Some 2) (RInt 1) []) = Inl RelateException \<and>
   \<not> snd (connect (link_heap ex_related 1) 1 2 True)"
proof -
  have f: "find_link_between ex_pop 1 0 (RInt 1) [] = Inr (0, 1, ex_R1)" by (simp add: ex_pop_eq ex_related_eq ex_dup_eq eval_defs)
  have cls: "inst_class ex_pop 2 = inst_class ex_pop 0" by (simp add: ex_pop_eq ex_related_eq ex_dup_eq eval_defs)
  have links: "source_link ex_R1 \<noteq> target_link ex_R1" by (simp add: ex_pop_eq ex_related_eq ex_dup_eq eval_defs)
  have tgt: "\<not> many (link_heap ex_pop (target_link ex_R1)) \<and>
             2 \<notin> navigate (link_heap ex_pop (target_link ex_R1)) 1" by (simp add: ex_pop_eq ex_related_eq ex_dup_eq eval_defs)
  have nav: "\<not> many (link_heap ex_related 1) \<and> navigate (link_heap ex_related 1) 1 \<noteq> {} \<and>
             2 \<notin> navigate (link_heap ex_related 1) 1" by (simp add: ex_pop_eq ex_related_eq ex_dup_eq eval_defs)
  have "snd (relate ex_related (Some 1) (Some 2) (RInt 1) []) = Inl RelateException \<and>
        \<not> snd (connect (link_heap ex_related 1) 1 2 True)"
    using relate_second_target_rejected [OF ex_relate_ok f cls links] tgt nav by auto
  with ex_relate_ok f cls tgt show ?thesis by simp
qed

theorem relate_second_target_counterexample:
  "\<not> many (link_heap ex_dup 1) \<and>
   snd (relate ex_dup (Some 1) (Some 0) (RInt 1) []) = Inr True \<and>
   snd (relate (fst (relate ex_dup (Some 1) (Some 0) (RInt 1) [])) (Some 1) (Some 2) (RInt 1) [])
     = Inr True"
  by (simp add: ex_pop_eq ex_related_eq ex_dup_eq eval_defs)

text \<open>
  C9. When \<^verbatim>\<open>relate(a, b, R, p)\<close> adds an edge to the source link (the connect there
  succeeds for a neighbour that was not present) and the connect on the target link is
  rejected, \<^verbatim>\<open>relate\<close> raises \<^verbatim>\<open>RelateException\<close> and the metamodel it leaves behind
  still holds the new edge: navigating the source link gives another result than before
  the call.
\<close>

theorem relate_not_atomic:
  assumes f: "find_link_between m a b r p = Inr (i1, i2, ass)"
    and fresh: "i2 \<notin> navigate (link_heap m (source_link ass)) i1"
    and ok1: "snd (link_connect m (source_link ass) i1 i2 True)"
    and rej: "\<not> snd (link_connect (fst (link_connect m (source_link ass) i1 i2 True))
                      (target_link ass) i2 i1 True)"
  shows "snd (relate m (Some a) (Some b) r p) = Inl RelateException \<and>
         i2 \<in> navigate (link_heap (fst (relate m (Some a) (Some b) r p)) (source_link ass)) i1 \<and>
         navigate (link_heap (fst (relate m (Some a) (Some b) r p)) (source_link ass)) i1
           \<noteq> navigate (link_heap m (source_link ass)) i1"
proof -
  let ?m1 = "fst (link_connect m (source_link ass) i1 i2 True)"
  let ?m2 = "fst (link_connect ?m1 (target_link ass) i2 i1 True)"
  have r: "relate m (Some a) (Some b) r p = (?m2, Inl RelateException)"
    using f ok1 rej by (simp add: relate_def split_beta)
  have "navigate (link_heap ?m2 (source_link ass)) i1 = insert i2 (navigate (link_heap m (source_link ass)) i1)"
    using ok1 rej by (simp add: navigate_link_connect)
  with fresh r show ?thesis by auto
qed

theorem relate_not_atomic_witness:
  "find_link_between ex_related 1 2 (RInt 1) [] = Inr (2, 1, ex_R1) \<and>
   1 \<notin> navigate (link_heap ex_related 0) 2 \<and>
   snd (link_connect ex_related 0 2 1 True) \<and>
   \<not> snd (link_connect (fst (link_connect ex_related 0 2 1 True)) 1 1 2 True) \<and>
   snd (relate ex_related (Some 1) (Some 2) (RInt 1) []) = Inl RelateException \<and>
   navigate (link_heap (fst (relate ex_related (Some 1) (Some 2) (RInt 1) [])) 0) 2 = {1} \<and>
   navigate (link_heap ex_related 0) 2 = {}"
proof -
  have f: "find_link_between ex_related 1 2 (RInt 1) [] = Inr (2, 1, ex_R1)"
    by (simp add: ex_related_eq eval_defs)
  have fresh: "1 \<notin> navigate (link_heap ex_related (source_link ex_R1)) 2"
    by (simp add: ex_related_eq eval_defs)
  have ok1: "snd (link_connect ex_related (source_link ex_R1) 2 1 True)"
    by (simp add: ex_related_eq eval_defs)
  have rej: "\<not> snd (link_connect (fst (link_connect ex_related (source_link ex_R1) 2 1 True))
                      (target_link ex_R1) 1 2 True)"
    by (simp add: ex_related_eq eval_defs)
  have nav: "navigate (link_heap (fst (relate ex_related (Some 1) (Some 2) (RInt 1) [])) 0) 2 = {1} \<and>
             navigate (link_heap ex_related 0) 2 = {}"
    by (simp add: ex_related_eq eval_defs)
  from relate_not_atomic [OF f fresh ok1 rej] f fresh ok1 rej nav
  show ?thesis by (simp add: ex_R1_def)
qed

text \<open>
  C10. \<^verbatim>\<open>delete(x)\<close> for an instance \<open>x\<close> in the pool of its metaclass raises nothing,
  removes (the first occurrence of) \<open>x\<close> from the pool, so that \<open>x\<close> is gone from a
  pool without repetition, and empties the query cache of the metaclass. It leaves every
  link as it is: an instance \<open>y\<close> that had \<open>x\<close> as a neighbour across a link still has
  it after the delete.
\<close>

theorem delete_keeps_links:
  assumes "x \<in> set (storage (mc_heap m (inst_class m x)))"
  shows "snd (delete m x) = Inr () \<and>
         storage (mc_heap (fst (delete m x)) (inst_class m x))
           = remove1 x (storage (mc_heap m (inst_class m x))) \<and>
         (distinct (storage (mc_heap m (inst_class m x)))
            \<longrightarrow> x \<notin> set (storage (mc_heap (fst (delete m x)) (inst_class m x)))) \<and>
         cache (mc_heap (fst (delete m x)) (inst_class m x)) = Map.empty \<and>
         link_heap (fst (delete m x)) = link_heap m \<and>
         (\<forall>l y. x \<in> navigate (link_heap m l) y
            \<longrightarrow> x \<in> navigate (link_heap (fst (delete m x)) l) y)"
  using assms by (simp add: delete_def mc_delete_def Let_def)

theorem delete_keeps_links_witness:
  "0 \<in> set (storage (mc_heap ex_related (inst_class ex_related 0))) \<and>
   distinct (storage (mc_heap ex_related (inst_class ex_related 0))) \<and>
   0 \<in> navigate (link_heap ex_related 1) 1 \<and>
   snd (delete ex_related 0) = Inr () \<and>
   0 \<notin> set (storage (mc_heap (fst (delete ex_related 0)) (inst_class ex_related 0))) \<and>
   cache (mc_heap (fst (delete ex_related 0)) (inst_class ex_related 0)) = Map.empty \<and>
   0 \<in> navigate (link_heap (fst (delete ex_related 0)) 1) 1"
proof -
  have h: "0 \<in> set (storage (mc_heap ex_related (inst_class ex_related 0)))"
    by (simp add: ex_related_eq)
  have d: "distinct (storage (mc_heap ex_related (inst_class ex_related 0)))"
    by (simp add: ex_related_eq)
  have n: "0 \<in> navigate (link_heap ex_related 1) 1"
    by (simp add: ex_related_eq eval_defs)
  from delete_keeps_links [OF h] h d n show ?thesis by blast
qed

text \<open>
  C6, as amended. \<^verbatim>\<open>Link.navigate(a)\<close> returns the neighbour set of \<open>a\<close>, a Python
  \<^verbatim>\<open>set\<close>: on a link that rejects no connect (it is many, or \<open>check\<close> is false) the
  result after connecting \<open>a\<close> to the elements of a list is the set of neighbours \<open>a\<close>
  had before together with the elements of the list, whatever their order.
\<close>

theorem navigate_connect_each:
  assumes "many l \<or> \<not> check"
  shows "navigate (connect_each l a bs check) a = navigate l a \<union> set bs"
  using assms
proof (induction bs arbitrary: l)
  case Nil
  then show ?case by simp
next
  case (Cons b bs)
  from Cons.prems have ok: "snd (connect l a b check)"
    by (auto simp: connect_result)
  from Cons.prems have "many (fst (connect l a b check)) \<or> \<not> check" by simp
  from Cons.IH [OF this] ok show ?case
    by (simp add: navigate_connect)
qed

theorem navigate_connect_each_witness:
  "many ex_link \<and> navigate (connect_each ex_link 1 [3, 2] True) 1 = {2, 3}"
proof -
  have h: "many ex_link \<or> \<not> True" by (simp add: ex_link_def Link_init_def)
  have e: "navigate ex_link 1 = {}" by (simp add: ex_link_def Link_init_def navigate_def)
  from navigate_connect_each [OF h, of 1 "[3, 2]"] e h show ?thesis by auto
qed

text \<open>
  Connecting 2 and then 3, or 3 and then 2, gives the same result of \<^verbatim>\<open>navigate\<close>; it
  is iterated in one order, here the one of the example metamodels, which is not the
  order of insertion of the second case.
\<close>

theorem navigate_insertion_order_counterexample:
  "navigate (connect_each ex_link 1 [2, 3] True) 1 = navigate (connect_each ex_link 1 [3, 2] True) 1 \<and>
   set_iter ex_pop (navigate (connect_each ex_link 1 [3, 2] True) 1) = [2, 3]"
proof -
  have "navigate (connect_each ex_link 1 [2, 3] True) 1 = {2, 3}"
    and "navigate (connect_each ex_link 1 [3, 2] True) 1 = {2, 3}"
    by (auto simp: ex_link_def Link_init_def connect_def navigate_def)
  moreover have "set_iter ex_pop {2, 3} = [2, 3]"
    by (simp add: ex_pop_eq)
  ultimately show ?thesis by simp
qed

text \<open>
  C7: the lookup of a link compares the relation id as it is written. The link that
  \<^verbatim>\<open>define_association\<close> registered under \<^verbatim>\<open>R1\<close> is found by \<^verbatim>\<open>find_link\<close> and by
  \<^verbatim>\<open>MetaClass.navigate\<close> for \<^verbatim>\<open>'R1'\<close> and for any case of the kind, and not for
  \<^verbatim>\<open>'r1'\<close>. A referential attribute that is read through its property is found under
  its declared name only: in another case \<^verbatim>\<open>getattr\<close> raises \<^verbatim>\<open>AttributeError\<close>.
\<close>

theorem lookup_case_sensitive:
  "find_link ex_related 1 ''Person'' (RStr ''R1'') [] = Some 1 \<and>
   find_link ex_related 1 ''PERSON'' (RStr ''R1'') [] = Some 1 \<and>
   find_link ex_related 1 ''Person'' (RStr ''r1'') [] = None \<and>
   mc_navigate ex_related 1 1 ''person'' (RStr ''R1'') [] = Inr {0} \<and>
   mc_navigate ex_related 1 1 ''person'' (RStr ''r1'') [] = Inl UnknownLinkException \<and>
   getattr 1 ex_frelated 1 ''owner_id'' = Inr (VInt 42) \<and>
   getattr 1 ex_frelated 1 ''OWNER_ID'' = Inl AttributeError"
proof -
  have "getattr (Suc 0) ex_frelated 1 ''owner_id'' = Inr (VInt 42)"
    and "getattr (Suc 0) ex_frelated 1 ''OWNER_ID'' = Inl AttributeError"
    by (simp_all add: ex_frelated_eq navigate_def)
  then show ?thesis
    by (simp add: ex_related_eq find_link_def mc_navigate_def navigate_def)
qed

text \<open>
  C3, as amended. An attribute write through \<^verbatim>\<open>setattr\<close> to a declared attribute and a
  \<^verbatim>\<open>delete\<close> of an instance of the pool leave the query cache of the metaclass of the
  instance empty, and after \<^verbatim>\<open>new\<close> the cache of the metaclass holds no query that was
  made before the call (it may hold queries that the batch relate of \<^verbatim>\<open>new\<close> has made).
\<close>

theorem mutation_clears_cache:
  "(setattr_loop (attributes (mc_heap m (inst_class m i))) (upper name) \<noteq> None
      \<longrightarrow> cache (mc_heap (setattr m i name v) (inst_class m i)) = Map.empty) \<and>
   (x \<in> set (storage (mc_heap m c))
      \<longrightarrow> snd (mc_delete m c x) = Inr () \<and> cache (mc_heap (fst (mc_delete m c x)) c) = Map.empty) \<and>
   cache_since (n_queries m) self (fst (new d m self args kwargs))"
  by (auto simp: setattr_def mc_delete_def Let_def cache_since_new)

lemma ex_cached_cache:
  "cache (mc_heap ex_cached 0) {(''name'', VStr ''A'')}
     = Some (Query_init 0 [0, 2] [(''name'', VStr ''A'')])"
  by (simp add: ex_cached_def ex_pop_eq mc_query_def frozen_def canon_def num_of_def Let_def
        numeral_2_eq_2)

theorem mutation_clears_cache_witness:
  "setattr_loop (attributes (mc_heap ex_cached (inst_class ex_cached 0))) (upper ''NAME'') \<noteq> None \<and>
   cache (mc_heap ex_cached 0) {(''name'', VStr ''A'')} \<noteq> None \<and>
   cache (mc_heap (setattr ex_cached 0 ''NAME'' (VStr ''C'')) (inst_class ex_cached 0)) = Map.empty \<and>
   0 \<in> set (storage (mc_heap ex_cached 0)) \<and>
   snd (mc_delete ex_cached 0 0) = Inr () \<and>
   cache (mc_heap (fst (mc_delete ex_cached 0 0)) 0) = Map.empty \<and>
   cache_since (n_queries ex_cached) 0 (fst (new 1 ex_cached 0 [VInt 44, VStr ''C''] []))"
proof -
  have a: "setattr_loop (attributes (mc_heap ex_cached (inst_class ex_cached 0))) (upper ''NAME'') \<noteq> None"
    by (simp add: ex_cached_def ex_pop_eq mc_query_def Let_def)
  have s: "0 \<in> set (storage (mc_heap ex_cached 0))"
    by (simp add: ex_cached_def ex_pop_eq mc_query_def Let_def)
  from mutation_clears_cache [of ex_cached 0 "''NAME''" "VStr ''C''" 0 0 0 1 "[VInt 44, VStr ''C'']" "[]"]
    a s ex_cached_cache
  show ?thesis by simp
qed

text \<open>
  A successful \<^verbatim>\<open>relate\<close> of dog 1 and person 0 leaves the query that was in the cache
  of \<open>Person\<close> before the call where it was.
\<close>

theorem relate_keeps_cache_counterexample:
  "snd (relate ex_cached (Some 1) (Some 0) (RInt 1) []) = Inr True \<and>
   inst_class ex_cached 0 = 0 \<and>
   cache (mc_heap ex_cached 0) {(''name'', VStr ''A'')}
     = Some (Query_init 0 [0, 2] [(''name'', VStr ''A'')]) \<and>
   cache (mc_heap (fst (relate ex_cached (Some 1) (Some 0) (RInt 1) [])) 0) {(''name'', VStr ''A'')}
     = Some (Query_init 0 [0, 2] [(''name'', VStr ''A'')])"
proof -
  have "snd (relate ex_cached (Some 1) (Some 0) (RInt 1) []) = Inr True"
    by (simp add: ex_cached_def ex_pop_eq mc_query_def eval_defs)
  moreover have "inst_class ex_cached 0 = 0"
    by (simp add: ex_cached_def ex_pop_eq mc_query_def Let_def)
  ultimately show ?thesis using ex_cached_cache by simp
qed

subsection \<open>Referential attributes\<close>

lemma relate_frame2 [simp]:
  "inst_class (fst (relate m a b r p)) = inst_class m"
  "inst_dict (fst (relate m a b r p)) = inst_dict m"
  "set_iter (fst (relate m a b r p)) = set_iter m"
  by (auto simp: relate_def split_beta split: option.splits sum.splits)

lemma unrelate_frame2 [simp]:
  "inst_class (fst (unrelate m a b r p)) = inst_class m"
  "inst_dict (fst (unrelate m a b r p)) = inst_dict m"
  "set_iter (fst (unrelate m a b r p)) = set_iter m"
  by (auto simp: unrelate_def split_beta split: option.splits sum.splits)

lemma unrelate_success:
  assumes "unrelate m (Some a) (Some b) r p = (m1, Inr True)"
  shows "\<exists>i1 i2 ass. find_link_between m a b r p = Inr (i1, i2, ass) \<and>
           m1 = fst (link_disconnect (fst (link_disconnect m (source_link ass) i1 i2))
                      (target_link ass) i2 i1) \<and>
           snd (link_disconnect m (source_link ass) i1 i2) \<and>
           snd (link_disconnect (fst (link_disconnect m (source_link ass) i1 i2))
                      (target_link ass) i2 i1)"
  using assms
  by (auto simp: unrelate_def split_beta split: sum.splits if_splits)

text \<open>
  C4, as amended. Let \<^verbatim>\<open>formalize\<close> have installed, for the referential attribute
  \<open>ref_key\<close> of the dependent class, the property that follows the target link of the
  association to \<open>primary_key\<close>, and let the dependent instance have no neighbour across
  that link but, possibly, the independent instance. After a successful \<^verbatim>\<open>relate\<close> the
  referential attribute reads what the identifying attribute of the independent instance
  reads. After a successful \<^verbatim>\<open>unrelate\<close> it reads \<^verbatim>\<open>None\<close>, whatever its declared
  type is, and \<^verbatim>\<open>_is_null\<close> is true of it.
\<close>

theorem referential_attribute_follows_link:
  assumes prp: "map_of (props (mc_heap m (inst_class m i2))) ref_key
                   = Some (target_link ass, primary_key)"
    and f: "find_link_between m a b r p = Inr (i1, i2, ass)"
    and links: "source_link ass \<noteq> target_link ass"
    and alone: "navigate (link_heap m (target_link ass)) i2 \<subseteq> {i1}"
    and it1: "set_iter m {i1} = [i1]"
    and it0: "set_iter m {} = []"
    and rel: "relate m (Some a) (Some b) r p = (m1, Inr True)"
    and unrel: "unrelate m1 (Some a) (Some b) r p = (m2, Inr True)"
  shows "(\<forall>v. getattr d m1 i1 primary_key = Inr v \<longrightarrow> getattr (Suc d) m1 i2 ref_key = Inr v) \<and>
         getattr (Suc d) m2 i2 ref_key = Inr VNone \<and>
         is_null (Suc d) m2 i2 ref_key = Inr True"
proof -
  let ?sl = "source_link ass" and ?tl = "target_link ass"
  from relate_success [OF rel] f have
    m1: "m1 = fst (link_connect (fst (link_connect m ?sl i1 i2 True)) ?tl i2 i1 True)" and
    ok2: "snd (link_connect (fst (link_connect m ?sl i1 i2 True)) ?tl i2 i1 True)"
    by auto
  have f1: "find_link_between m1 a b r p = Inr (i1, i2, ass)"
    by (simp add: m1 find_link_between_connect f)
  from unrelate_success [OF unrel] f1 have
    m2: "m2 = fst (link_disconnect (fst (link_disconnect m1 ?sl i1 i2)) ?tl i2 i1)"
    by auto
  have nav1: "navigate (link_heap m1 ?tl) i2 = {i1}"
    using ok2 links alone by (auto simp: m1 navigate_link_connect)
  have nav2: "navigate (link_heap m2 ?tl) i2 = {}"
    using nav1 links by (simp add: m2 navigate_link_disconnect)
  have frame1: "mc_heap m1 = mc_heap m" "inst_class m1 = inst_class m" "set_iter m1 = set_iter m"
    by (simp_all add: m1)
  have frame2: "mc_heap m2 = mc_heap m" "inst_class m2 = inst_class m" "set_iter m2 = set_iter m"
    by (simp_all add: m2 frame1)
  have read1: "getattr d m1 i1 primary_key = Inr v \<Longrightarrow> getattr (Suc d) m1 i2 ref_key = Inr v" for v
    by (simp add: frame1 prp nav1 it1)
  have read2: "getattr (Suc d) m2 i2 ref_key = Inr VNone"
    by (simp add: frame2 prp nav2 it0)
  then have "is_null (Suc d) m2 i2 ref_key = Inr True"
    by (simp add: is_null_def truthy_def)
  with read1 read2 show ?thesis by blast
qed

lemma ex_frelate_ok: "relate ex_fpop (Some 1) (Some 0) (RInt 1) [] = (ex_frelated, Inr True)"
proof -
  have "snd (relate ex_fpop (Some 1) (Some 0) (RInt 1) []) = Inr True"
    by (simp add: ex_fpop_eq eval_defs)
  then show ?thesis by (simp add: ex_frelated_def prod_eq_iff)
qed

lemma ex_funrelate_ok: "unrelate ex_frelated (Some 1) (Some 0) (RInt 1) [] = (ex_funrelated, Inr True)"
proof -
  have "snd (unrelate ex_frelated (Some 1) (Some 0) (RInt 1) []) = Inr True"
    by (simp add: ex_frelated_eq eval_defs)
  then show ?thesis by (simp add: ex_funrelated_def prod_eq_iff)
qed

theorem referential_attribute_follows_link_witness:
  "map_of (props (mc_heap ex_fpop (inst_class ex_fpop 1))) ''owner_id'' = Some (target_link ex_R1, ''id'') \<and>
   find_link_between ex_fpop 1 0 (RInt 1) [] = Inr (0, 1, ex_R1) \<and>
   navigate (link_heap ex_fpop (target_link ex_R1)) 1 \<subseteq> {0} \<and>
   relate ex_fpop (Some 1) (Some 0) (RInt 1) [] = (ex_frelated, Inr True) \<and>
   unrelate ex_frelated (Some 1) (Some 0) (RInt 1) [] = (ex_funrelated, Inr True) \<and>
   getattr 0 ex_frelated 0 ''id'' = Inr (VInt 42) \<and>
   getattr 1 ex_frelated 1 ''owner_id'' = Inr (VInt 42) \<and>
   getattr 1 ex_funrelated 1 ''owner_id'' = Inr VNone \<and>
   is_null 1 ex_funrelated 1 ''owner_id'' = Inr True"
proof -
  have prp: "map_of (props (mc_heap ex_fpop (inst_class ex_fpop 1))) ''owner_id''
                = Some (target_link ex_R1, ''id'')"
    by (simp add: ex_fpop_eq ex_R1_def)
  have f: "find_link_between ex_fpop 1 0 (RInt 1) [] = Inr (0, 1, ex_R1)"
    by (simp add: ex_fpop_eq eval_defs)
  have links: "source_link ex_R1 \<noteq> target_link ex_R1" by (simp add: ex_R1_def)
  have alone: "navigate (link_heap ex_fpop (target_link ex_R1)) 1 \<subseteq> {0}"
    by (simp add: ex_fpop_eq eval_defs)
  have it1: "set_iter ex_fpop {0} = [0]" and it0: "set_iter ex_fpop {} = []"
    by (simp_all add: ex_fpop_eq)
  have v: "getattr 0 ex_frelated 0 ''id'' = Inr (VInt 42)"
    by (simp add: ex_frelated_eq)
  from referential_attribute_follows_link
         [OF prp f links alone it1 it0 ex_frelate_ok ex_funrelate_ok, of 0]
       v prp f alone ex_frelate_ok ex_funrelate_ok
  show ?thesis by (simp add: One_nat_def [symmetric] del: One_nat_def)
qed

text \<open>
  The attribute \<open>owner_id\<close> of the dog is declared \<^verbatim>\<open>UNIQUE_ID\<close>; after the
  \<^verbatim>\<open>unrelate\<close> it reads \<^verbatim>\<open>None\<close>, which is not the zero id.
\<close>

theorem unrelate_reads_none_counterexample:
  "map_of (attributes (mc_heap ex_frelated (inst_class ex_frelated 1))) ''owner_id'' = Some ''UNIQUE_ID'' \<and>
   snd (unrelate ex_frelated (Some 1) (Some 0) (RInt 1) []) = Inr True \<and>
   getattr 1 (fst (unrelate ex_frelated (Some 1) (Some 0) (RInt 1) [])) 1 ''owner_id'' = Inr VNone \<and>
   \<not> py_eq VNone (VInt 0)"
proof -
  have "map_of (attributes (mc_heap ex_frelated (inst_class ex_frelated 1))) ''owner_id'' = Some ''UNIQUE_ID''"
    by (simp add: ex_frelated_eq)
  moreover have "getattr (Suc 0) ex_funrelated 1 ''owner_id'' = Inr VNone"
    by (simp add: ex_funrelated_eq navigate_def)
  moreover have "\<not> py_eq VNone (VInt 0)"
    by (simp add: py_eq_def num_of_def)
  ultimately show ?thesis using ex_funrelate_ok by simp
qed

end
